theory Spec2Isabelle
  imports Complex_Main
begin

section \<open>Numbers and errors\<close>

text \<open>
  The program computes in C++ \<^verbatim>\<open>double\<close>. Finite doubles are idealised as reals
  (no rounding, no overflow). The special values are kept apart where the code can
  produce or observe them: a division whose divisor may be zero, the potential at the
  origin, and the energy correction \<^verbatim>\<open>dE\<close> that the integrator hands back and
  that the loops test with \<^verbatim>\<open>std::isnan\<close>. The \<^verbatim>\<open>int\<close> values of the program
  (quantum numbers, node counts, grid indices, iteration counters) stay far from the
  limits of the type and are integers here.
\<close>

datatype double = Num real | PInf | NInf | NaN

text \<open>\<^verbatim>\<open>x / y\<close> on finite operands; a zero divisor is taken as \<^verbatim>\<open>+0.0\<close>.\<close>

definition ddiv :: "real \<Rightarrow> real \<Rightarrow> double" where
  "ddiv x y =
     (if y \<noteq> 0 then Num (x / y)
      else if x = 0 then NaN
      else if 0 < x then PInf
      else NInf)"

text \<open>\<^verbatim>\<open>d * x\<close> for a double \<open>d\<close> that may be special and a finite \<open>x\<close>.\<close>

definition dmul :: "double \<Rightarrow> real \<Rightarrow> double" where
  "dmul d x =
     (case d of
        Num y \<Rightarrow> Num (y * x)
      | PInf \<Rightarrow> (if 0 < x then PInf else if x < 0 then NInf else NaN)
      | NInf \<Rightarrow> (if 0 < x then NInf else if x < 0 then PInf else NaN)
      | NaN \<Rightarrow> NaN)"

text \<open>Comparisons with a special value: every comparison with NaN is false.\<close>

definition dless :: "double \<Rightarrow> double \<Rightarrow> bool" where
  "dless a b =
     (case (a, b) of
        (Num x, Num y) \<Rightarrow> x < y
      | (Num x, PInf) \<Rightarrow> True
      | (NInf, Num y) \<Rightarrow> True
      | (NInf, PInf) \<Rightarrow> True
      | _ \<Rightarrow> False)"

definition isnan :: "double \<Rightarrow> bool" where
  "isnan d = (d = NaN)"

text \<open>\<^verbatim>\<open>std::max(a, b)\<close> is \<^verbatim>\<open>(a < b) ? b : a\<close>.\<close>

definition dmax :: "double \<Rightarrow> double \<Rightarrow> double" where
  "dmax a b = (if dless a b then b else a)"

text \<open>\<^verbatim>\<open>d + x\<close> for a finite \<open>x\<close>.\<close>

definition dadd :: "double \<Rightarrow> real \<Rightarrow> double" where
  "dadd d x = (case d of Num y \<Rightarrow> Num (y + x) | _ \<Rightarrow> d)"

datatype AtomErrorCode = UNBOUND_STATE | SMALL_GAMMA

text \<open>
  Everything the sources throw: \<^verbatim>\<open>std::invalid_argument\<close>,
  \<^verbatim>\<open>std::runtime_error\<close>, an \<^verbatim>\<open>AtomErrorCode\<close>, a string literal
  (\<^verbatim>\<open>throw "NODES WRONG"\<close>), and \<^verbatim>\<open>std::length_error\<close> from a vector
  built with a negative size. \<open>undefined_read\<close> is not an exception: it marks the
  places where the C++ program has no defined result or leaves the idealisation (the
  read of an object that was never assigned, a non-finite double on its way into an
  \<^verbatim>\<open>int\<close>). No theorem below concludes anything from it but that it is reached.
\<close>

datatype error =
    invalid_argument string
  | runtime_error string
  | atom_error AtomErrorCode
  | thrown_literal string
  | length_error
  | undefined_read string

section \<open>constants.hpp\<close>

definition alpha :: real where
  "alpha = 72973525664 / 10 ^ 13"

definition c :: real where
  "c = 137035999139 / 10 ^ 9"

section \<open>potential.cpp: the sphere Coulomb potential\<close>

record CoulombSpherePotential =
  csp_Z :: real
  csp_R :: real
  csp_R3 :: real
  csp_VR :: real

text \<open>The constructor \<^verbatim>\<open>CoulombSpherePotential(Z, R)\<close>.\<close>

definition CoulombSpherePotential :: "real \<Rightarrow> real \<Rightarrow> CoulombSpherePotential" where
  "CoulombSpherePotential Z R =
     \<lparr>csp_Z = Z, csp_R = R, csp_R3 = R ^ 3,
      csp_VR = (if 0 < R then - 1.5 * Z / R else 0)\<rparr>"

text \<open>
  \<^verbatim>\<open>CoulombSpherePotential::V\<close>. In the middle branch \<open>0 \<le> r < R\<close>, so
  \<open>2 * R3\<close> is not zero; in the last branch \<open>r\<close> may be zero.
\<close>

definition CoulombSphere_V :: "CoulombSpherePotential \<Rightarrow> real \<Rightarrow> error + double" where
  "CoulombSphere_V p r =
     (if r < 0 then
        Inl (invalid_argument ''Negative radius not allowed for CoulombPotential'')
      else if r < csp_R p then
        Inr (Num (csp_Z p * r ^ 2 / (2 * csp_R3 p) + csp_VR p))
      else
        Inr (ddiv (- csp_Z p) r))"

section \<open>potential.cpp: the Uehling potential of a uniform sphere\<close>

text \<open>
  The members that \<^verbatim>\<open>V\<close> reads. \<open>exp_cutoff_high\<close> and \<open>exp_cutoff_low\<close> are
  constants of the class declaration, which is not among the sources: they are fields
  with arbitrary values. \<open>uint0\<close> is assigned in one branch of the constructor only;
  \<open>None\<close> is the member that was never assigned. The member \<^verbatim>\<open>uarg\<close> is working
  storage that \<^verbatim>\<open>V\<close> overwrites before it reads it and is left out.
\<close>

record UehlingSpherePotential =
  usp_Z :: real
  usp_R :: real
  usp_usteps :: int
  usp_du :: real
  usp_uker :: "real list"
  usp_u24c2 :: "real list"
  usp_uker_great :: "real list"
  usp_uker_small :: "real list"
  usp_rho :: real
  usp_uint0 :: "real option"
  usp_K :: real
  exp_cutoff_high :: real
  exp_cutoff_low :: real

text \<open>\<^verbatim>\<open>ukernel_r_greater(double u, double r, double R)\<close>\<close>

definition ukernel_r_greater :: "real \<Rightarrow> real \<Rightarrow> real \<Rightarrow> real" where
  "ukernel_r_greater u r R =
     exp (- 2 * r * c / u) *
       (exp (2 * R * c / u) * (R * u * alpha / 2 - (u * alpha) ^ 2 / 4) +
        exp (- 2 * R * c / u) * (R * u * alpha / 2 + (u * alpha) ^ 2 / 4))"

text \<open>\<^verbatim>\<open>ukernel_r_smaller(double u, double r, double R)\<close>\<close>

definition ukernel_r_smaller :: "real \<Rightarrow> real \<Rightarrow> real \<Rightarrow> real" where
  "ukernel_r_smaller u r R =
     (exp (- 2 * r * c / u) - exp (2 * r * c / u)) *
       (exp (- 2 * R * c / u) * (R * u * alpha / 2 + (u * alpha) ^ 2 / 4) -
        (u * alpha) ^ 2 / 4)"

definition ukernel_r_verysmall :: "real \<Rightarrow> real \<Rightarrow> real" where
  "ukernel_r_verysmall u R =
     4 * c / u *
       (- exp (- 2 * R * c / u) * (0.5 * R * u * alpha + (u / (2 * c)) ^ 2) +
        (u / (2 * c)) ^ 2)"

definition ukernel_point :: "real \<Rightarrow> real \<Rightarrow> real" where
  "ukernel_point u r = 1 / u * exp (- 2 * r * c / u)"

text \<open>
  The constructor. \<^verbatim>\<open>trapzInt\<close> belongs to the utilities, which are not among the
  sources, and is a parameter. A negative \<open>usteps\<close> makes the first
  \<^verbatim>\<open>vector<double>(usteps, 0)\<close> throw. The index loops start at 1; entry 0 of every
  table stays 0. The model is meant for \<open>usteps \<ge> 2\<close>: with \<open>usteps = 1\<close> the C++
  \<open>du\<close> is infinite, with \<open>usteps = 0\<close> the element \<^verbatim>\<open>uarg[0]\<close> does not exist.
\<close>

definition uker_at :: "real \<Rightarrow> nat \<Rightarrow> real" where
  "uker_at du i =
     (if i = 0 then 0
      else let u = real i * du in sqrt (1 - u * u) * (1 + 0.5 * u * u))"

definition u24c2_at :: "real \<Rightarrow> nat \<Rightarrow> real" where
  "u24c2_at du i =
     (if i = 0 then 0 else let u = real i * du in (u * alpha) ^ 2 / 4)"

definition uker_great_at :: "real \<Rightarrow> real \<Rightarrow> nat \<Rightarrow> real" where
  "uker_great_at du R i =
     (if i = 0 then 0 else let u = real i * du in ukernel_r_greater u 0 R)"

definition uker_small_at :: "real \<Rightarrow> real \<Rightarrow> nat \<Rightarrow> real" where
  "uker_small_at du R i =
     (if i = 0 then 0
      else let u = real i * du in
        exp (- 2 * R * c / u) * (R * u * alpha / 2 + u24c2_at du i) - u24c2_at du i)"

definition uint0_arg :: "real \<Rightarrow> real \<Rightarrow> nat \<Rightarrow> real" where
  "uint0_arg du R i =
     (if i = 0 then 0
      else let u = real i * du in ukernel_r_verysmall u R * uker_at du i)"

definition UehlingSpherePotential ::
  "(real \<Rightarrow> real list \<Rightarrow> real) \<Rightarrow> real \<Rightarrow> real \<Rightarrow> real \<Rightarrow> real \<Rightarrow> int
     \<Rightarrow> error + UehlingSpherePotential" where
  "UehlingSpherePotential trapzInt cutoff_high cutoff_low Z R usteps =
     (if usteps < 0 then Inl length_error
      else
        let du = 1 / (real_of_int usteps - 1);
            idx = [0 ..< nat usteps];
            rho = (if 0 < R then Z * 0.75 / (pi * R ^ 3) else Z / (pi * alpha))
        in Inr
          \<lparr>usp_Z = Z, usp_R = R, usp_usteps = usteps, usp_du = du,
           usp_uker = map (uker_at du) idx,
           usp_u24c2 = map (u24c2_at du) idx,
           usp_uker_great = map (uker_great_at du R) idx,
           usp_uker_small = map (uker_small_at du R) idx,
           usp_rho = rho,
           usp_uint0 =
             (if 0 < R then Some (trapzInt du (map (uint0_arg du R) idx)) else None),
           usp_K = - 2 * alpha ^ 2 / 3 * rho,
           exp_cutoff_high = cutoff_high, exp_cutoff_low = cutoff_low\<rparr>)"

text \<open>
  The overloads \<^verbatim>\<open>ukernel_r_greater(int i, double r, bool rR)\<close> and
  \<^verbatim>\<open>ukernel_r_smaller(int i, double r, bool rR)\<close> on the stored tables; \<^verbatim>\<open>V\<close>
  calls them with \<open>1 \<le> i < usteps\<close>, inside the tables.
\<close>

definition ukernel_r_greater_i :: "UehlingSpherePotential \<Rightarrow> nat \<Rightarrow> real \<Rightarrow> bool \<Rightarrow> real" where
  "ukernel_r_greater_i p i r rR =
     (if \<not> rR then exp (- 2 * r * c / (usp_du p * real i)) * usp_uker_great p ! i
      else
        let u = usp_du p * real i in
          (r * u * alpha / 2 - usp_u24c2 p ! i) +
          exp (- 4 * r * c / u) * (r * u * alpha / 2 + usp_u24c2 p ! i))"

definition ukernel_r_smaller_i :: "UehlingSpherePotential \<Rightarrow> nat \<Rightarrow> real \<Rightarrow> bool \<Rightarrow> real" where
  "ukernel_r_smaller_i p i r rR =
     (let u = usp_du p * real i in
        if \<not> rR then
          (exp (- 2 * r * c / u) - exp (2 * r * c / u)) * usp_uker_small p ! i
        else
          let ecru = exp (- 2 * r * c / u) in
            (r * u * alpha / 2 + usp_u24c2 p ! i) * (ecru ^ 2 - 1) +
            usp_u24c2 p ! i * (1 / ecru - ecru))"

definition Uehling_uarg :: "UehlingSpherePotential \<Rightarrow> real \<Rightarrow> nat \<Rightarrow> real" where
  "Uehling_uarg p r i =
     (if i = 0 then 0
      else
        let u = real i * usp_du p in
          (if usp_R p \<le> 0 then ukernel_point u r
           else if usp_R p < r then ukernel_r_greater_i p i r False
           else ukernel_r_greater_i p i r True + ukernel_r_smaller_i p i r False
                  - ukernel_r_smaller_i p i r True)
          * usp_uker p ! i)"

text \<open>
  \<^verbatim>\<open>UehlingSpherePotential::V\<close>. The function has three exits and no
  \<^verbatim>\<open>throw\<close>. The second exit reads \<^verbatim>\<open>uint0\<close>.
\<close>

definition Uehling_V ::
  "(real \<Rightarrow> real list \<Rightarrow> real) \<Rightarrow> UehlingSpherePotential \<Rightarrow> real \<Rightarrow> error + double" where
  "Uehling_V trapzInt p r =
     (if exp_cutoff_high p * 0.5 * alpha < r then Inr (Num 0)
      else if r < exp_cutoff_low p * 0.5 * usp_du p * alpha then
        (case usp_uint0 p of
           None \<Rightarrow> Inl (undefined_read ''uint0'')
         | Some u0 \<Rightarrow> Inr (Num (usp_K p * u0)))
      else
        let ans = trapzInt (usp_du p) (map (Uehling_uarg p r) [0 ..< nat (usp_usteps p)])
        in Inr (dmul (ddiv (usp_K p) r) ans))"

text \<open>
  Modelled from the spec: \<^verbatim>\<open>trapzInt(dx, y)\<close> of the utilities, which are not among
  the sources, as the trapezoidal rule with step \<open>dx\<close> that the specification names.
  It only serves to run the functions above on concrete inputs.
\<close>

definition trapzInt :: "real \<Rightarrow> real list \<Rightarrow> real" where
  "trapzInt dx y =
     (case y of [] \<Rightarrow> 0 | y0 # _ \<Rightarrow> dx * (sum_list y - (y0 + last y) / 2))"

section \<open>atom.cpp: states, grids and the cache\<close>

text \<open>
  Modelled from the spec: \<^verbatim>\<open>qnumDirac2Schro\<close> and \<^verbatim>\<open>qnumNodes2Principal\<close> of the
  utilities, which are not among the sources. The specification gives
  \<open>k = l\<close> if \<open>s\<close> and \<open>l > 0\<close>, else \<open>k = - l - 1\<close>, and \<open>nodesP = n - l - 1\<close>;
  the first function inverts the former, the second the latter.
\<close>

definition qnumDirac2Schro :: "int \<Rightarrow> int \<times> bool" where
  "qnumDirac2Schro k = (if 0 < k then (k, True) else (- k - 1, False))"

definition qnumNodes2Principal :: "int \<Rightarrow> int \<Rightarrow> int" where
  "qnumNodes2Principal nodes l = nodes + l + 1"

record TurningPoint =
  tp_i :: int
  tp_Qi :: real
  tp_Qe :: real
  tp_Pi :: real
  tp_Pe :: real

text \<open>
  \<^verbatim>\<open>DiracState\<close>. The members \<^verbatim>\<open>E\<close>, \<^verbatim>\<open>k\<close>, \<^verbatim>\<open>Q\<close>, \<^verbatim>\<open>P\<close>, \<^verbatim>\<open>V\<close> carry the
  prefix \<open>st_\<close>. The entries of \<open>st_Q\<close> and \<open>st_P\<close> are idealised reals; they reach the
  properties below only through \<^verbatim>\<open>countNodes\<close>, which is a parameter.
\<close>

record DiracState =
  st_E :: real
  nodes :: int
  st_k :: int
  nodesQ :: int
  init :: bool
  grid_indices :: "int \<times> int"
  grid :: "real list"
  loggrid :: "real list"
  st_Q :: "real list"
  st_P :: "real list"
  st_V :: "double list"

text \<open>
  Modelled from the spec: the default \<^verbatim>\<open>DiracState\<close>, whose class declaration is
  not among the sources. \<^verbatim>\<open>State::State()\<close> sets \<^verbatim>\<open>E = 0\<close> and
  \<^verbatim>\<open>nodes = 0\<close>, and the vectors are empty; \<^verbatim>\<open>init\<close> starts as false (a cache
  entry counts as converged only once it is initialised); the members \<^verbatim>\<open>k\<close> and
  \<^verbatim>\<open>nodesQ\<close>, for which no initial value is known, are taken as 0.
\<close>

definition DiracState_default :: DiracState where
  "DiracState_default =
     \<lparr>st_E = 0, nodes = 0, st_k = 0, nodesQ = 0, init = False, grid_indices = (0, 0),
      grid = [], loggrid = [], st_Q = [], st_P = [], st_V = []\<rparr>"

text \<open>
  Modelled from the spec: \<^verbatim>\<open>logGrid(rc, dx, i0, i1)\<close> of the utilities, which are not
  among the sources. It fails if \<open>dx \<le> 0\<close>, \<open>rc \<le> 0\<close> or \<open>i1 < i0\<close>; otherwise the
  radii are \<open>r[i] = rc * exp (i * dx)\<close> for \<open>i0 \<le> i \<le> i1\<close>, and the log coordinates
  are \<open>i * dx\<close>. The result is the pair (log grid, grid), as the callers unpack it.
\<close>

definition logGrid :: "real \<Rightarrow> real \<Rightarrow> int \<Rightarrow> int \<Rightarrow> error + (real list \<times> real list)" where
  "logGrid rc dx i0 i1 =
     (if dx \<le> 0 \<or> rc \<le> 0 \<or> i1 < i0 then
        Inl (invalid_argument ''Invalid parameters passed to logGrid'')
      else
        Inr (map (\<lambda>i. real_of_int i * dx) [i0 .. i1],
             map (\<lambda>i. rc * exp (real_of_int i * dx)) [i0 .. i1]))"

text \<open>
  \<^verbatim>\<open>DiracState(rc, dx, i0, i1)\<close>: the delegated \<^verbatim>\<open>DiracState(N)\<close> with
  \<open>N = i1 - i0 + 1\<close> builds the vectors (a negative size throws), then the grid is
  filled.
\<close>

definition DiracState_grid :: "real \<Rightarrow> real \<Rightarrow> int \<Rightarrow> int \<Rightarrow> error + DiracState" where
  "DiracState_grid rc dx i0 i1 =
     (let N = i1 - i0 + 1 in
        if N < 0 then Inl length_error
        else
          case logGrid rc dx i0 i1 of
            Inl e \<Rightarrow> Inl e
          | Inr (lg, g) \<Rightarrow>
              Inr (DiracState_default
                \<lparr>grid := g, loggrid := lg,
                 st_Q := replicate (nat N) 0, st_P := replicate (nat N) 0,
                 st_V := replicate (nat N) (Num 0),
                 grid_indices := (i0, i1)\<rparr>))"

text \<open>
  The copy constructor \<^verbatim>\<open>DiracState(const DiracState &s)\<close>: it sets \<^verbatim>\<open>init\<close> to
  true and copies \<^verbatim>\<open>nodes\<close>, \<^verbatim>\<open>E\<close>, \<^verbatim>\<open>k\<close>, the grid and \<^verbatim>\<open>Q\<close>, \<^verbatim>\<open>P\<close>;
  \<^verbatim>\<open>V\<close> and \<^verbatim>\<open>nodesQ\<close> are not copied.
\<close>

definition DiracState_copy :: "DiracState \<Rightarrow> DiracState" where
  "DiracState_copy s =
     DiracState_default
       \<lparr>init := True, nodes := nodes s, st_E := st_E s, st_k := st_k s,
        grid_indices := grid_indices s, grid := grid s, loggrid := loggrid s,
        st_Q := st_Q s, st_P := st_P s\<rparr>"

definition getl :: "DiracState \<Rightarrow> int" where
  "getl st = fst (qnumDirac2Schro (st_k st))"

definition gets :: "DiracState \<Rightarrow> bool" where
  "gets st = snd (qnumDirac2Schro (st_k st))"

definition getn :: "DiracState \<Rightarrow> int" where
  "getn st = qnumNodes2Principal (nodes st) (getl st)"

text \<open>
  The cache \<^verbatim>\<open>map<tuple<int, int, bool>, DiracState> states\<close>: an association list
  with distinct keys in ascending order, the order in which a \<^verbatim>\<open>std::map\<close> is
  traversed.
\<close>

type_synonym qnums = "int \<times> int \<times> bool"

type_synonym cache = "(qnums \<times> DiracState) list"

fun qnums_less :: "qnums \<Rightarrow> qnums \<Rightarrow> bool" where
  "qnums_less (n1, l1, s1) (n2, l2, s2) =
     (n1 < n2 \<or> (n1 = n2 \<and> (l1 < l2 \<or> (l1 = l2 \<and> \<not> s1 \<and> s2))))"

text \<open>\<^verbatim>\<open>states[key] = v\<close>: overwrite the entry, or insert it at its place.\<close>

fun states_put :: "qnums \<Rightarrow> DiracState \<Rightarrow> cache \<Rightarrow> cache" where
  "states_put key v [] = [(key, v)]"
| "states_put key v ((key', v') # rest) =
     (if key = key' then (key, v) # rest
      else if qnums_less key key' then (key, v) # (key', v') # rest
      else (key', v') # states_put key v rest)"

text \<open>
  \<^verbatim>\<open>states[key]\<close> as an expression: \<^verbatim>\<open>std::map::operator[]\<close> inserts a
  default-constructed state when the key is absent and yields the entry.
\<close>

definition states_subscript :: "qnums \<Rightarrow> cache \<Rightarrow> DiracState \<times> cache" where
  "states_subscript key m =
     (case map_of m key of
        Some v \<Rightarrow> (v, m)
      | None \<Rightarrow> (DiracState_default, states_put key DiracState_default m))"

text \<open>
  The members of \<^verbatim>\<open>Atom\<close> and \<^verbatim>\<open>DiracAtom\<close> that the functions below read. The
  short names carry the prefix \<open>at_\<close>. \<open>at_V\<close> is the member \<^verbatim>\<open>V\<close>, the potential
  object, through its method \<^verbatim>\<open>V.V(r)\<close>. The tolerances (\<open>maxit\<close>, \<open>Etol\<close>,
  \<open>Esearch\<close>, \<open>max_dE_ratio\<close>, \<open>Edamp\<close>, \<open>in_eps\<close>, \<open>out_eps\<close>) are members whose
  defaults sit in the class declaration, which is not among the sources.
\<close>

record DiracAtom =
  at_Z :: real
  at_mu :: real
  at_R :: real
  at_rc :: real
  at_dx :: real
  restE :: real
  at_V :: "real \<Rightarrow> error + double"
  states :: cache
  maxit :: int
  Etol :: real
  Esearch :: real
  max_dE_ratio :: real
  Edamp :: real
  in_eps :: real
  out_eps :: real

text \<open>
  What the sources leave open. Library code that is not among the sources is taken as
  parameters:
  \<^item> \<open>ext_shoot mu Z dx inside st\<close>: \<^verbatim>\<open>boundaryDiracCoulomb\<close> followed by
    \<^verbatim>\<open>shootDiracLog\<close> on the state's arrays; it yields the new \<^verbatim>\<open>Q\<close>, \<^verbatim>\<open>P\<close>
    and the turning point;
  \<^item> \<open>ext_dE mu dx st tp\<close>: the value \<^verbatim>\<open>err / (zetai[tp.i] - zetae[tp.i])\<close> that
    \<^verbatim>\<open>integrateState\<close> and \<^verbatim>\<open>stateIntegrate\<close> compute from the turning point and
    two runs of \<^verbatim>\<open>shootDiracErrorDELog\<close>; the quotients may be infinite or NaN;
  \<^item> \<open>ext_countNodes\<close>: \<^verbatim>\<open>countNodes\<close>;
  \<^item> \<open>ext_trapz\<close>: \<^verbatim>\<open>trapzInt(x, y)\<close> on two vectors;
  \<^item> \<open>ext_hydrogenic\<close>: \<^verbatim>\<open>hydrogenicDiracEnergy(Z, mu, n, k)\<close>.

  And one choice that C++ leaves to the compiler: \<open>ext_elide\<close> tells whether the
  \<^verbatim>\<open>return state;\<close> of \<^verbatim>\<open>convergeState\<close> builds the result in place (the copy
  is elided) or through the copy constructor of \<^verbatim>\<open>DiracState\<close>, which is the only
  constructor the class has for it.
\<close>

record externals =
  ext_shoot :: "real \<Rightarrow> real \<Rightarrow> real \<Rightarrow> bool \<Rightarrow> DiracState
                  \<Rightarrow> error + (real list \<times> real list \<times> TurningPoint)"
  ext_dE :: "real \<Rightarrow> real \<Rightarrow> DiracState \<Rightarrow> TurningPoint \<Rightarrow> double"
  ext_countNodes :: "real list \<Rightarrow> int"
  ext_trapz :: "real list \<Rightarrow> real list \<Rightarrow> real"
  ext_hydrogenic :: "real \<Rightarrow> real \<Rightarrow> int \<Rightarrow> int \<Rightarrow> real"
  ext_elide :: bool

text \<open>
  \<^verbatim>\<open>DiracAtom::gridLimits\<close>. The two \<^verbatim>\<open>AtomErrorCode\<close> exits come first, in the
  order of the source, then the checks of \<open>out_eps\<close> and \<open>in_eps\<close>. After them the
  source divides by \<open>K\<close>, \<open>gamma\<close> and \<open>|B|\<close> and takes logarithms. With \<open>K = 0\<close>
  and the other quantities regular, \<open>r_in\<close> is a positive number divided by zero,
  that is \<open>+\<infinity>\<close>, and exceeds the finite \<open>r_tp\<close>: the check of the inner radius
  throws. In the other cases where one of the quantities is not finite in C++ the
  model stops with \<open>undefined_read\<close>.
\<close>

definition gridLimits :: "DiracAtom \<Rightarrow> real \<Rightarrow> int \<Rightarrow> error + (int \<times> int)" where
  "gridLimits a En k =
     (let K = (at_mu a * c) ^ 2 - (En / c) ^ 2;
          gamma = (real_of_int k) ^ 2 - (at_Z a * alpha) ^ 2
      in
        if K < 0 then Inl (atom_error UNBOUND_STATE)
        else if gamma < 0 then Inl (atom_error SMALL_GAMMA)
        else
          let K' = sqrt K;
              gamma' = sqrt gamma;
              B = En - restE a;
              r_tp = at_Z a / \<bar>B\<bar>
          in
            if out_eps a > 1 \<or> out_eps a < 0 then
              Inl (runtime_error
                ''Invalid value for out_eps in DiracAtom; must be 0 < out_eps < 1'')
            else if in_eps a > 1 \<or> in_eps a < 0 then
              Inl (runtime_error
                ''Invalid value for in_eps in DiracAtom; must be 0 < in_eps < 1'')
            else if K = 0 \<and> gamma \<noteq> 0 \<and> in_eps a \<noteq> 0 \<and> B \<noteq> 0 then
              Inl (runtime_error
                ''Inner grid radius is too small for given atom and state; please decrease in_eps'')
            else if K = 0 \<or> gamma = 0 \<or> B = 0 \<or> out_eps a = 0 \<or> in_eps a = 0
                    \<or> at_rc a \<le> 0 \<or> at_dx a = 0 then
              Inl (undefined_read ''non-finite grid limit'')
            else
              let r_out = r_tp - ln (out_eps a) / K';
                  r_in = in_eps a powr (1 / gamma') / exp 1 * gamma' / K'
              in
                if r_in > r_tp then
                  Inl (runtime_error
                    ''Inner grid radius is too small for given atom and state; please decrease in_eps'')
                else if r_out \<le> 0 then
                  Inl (undefined_read ''non-finite grid limit'')
                else
                  Inr (\<lfloor>ln (r_in / at_rc a) / at_dx a\<rfloor>,
                       \<lceil>ln (r_out / at_rc a) / at_dx a\<rceil>))"

section \<open>atom.cpp: integrating one trial state\<close>

text \<open>\<^verbatim>\<open>Atom::getV\<close>: the potential on a grid; the first failing point throws.\<close>

fun getV :: "DiracAtom \<Rightarrow> real list \<Rightarrow> error + double list" where
  "getV a [] = Inr []"
| "getV a (r # rs) =
     (case at_V a r of
        Inl e \<Rightarrow> Inl e
      | Inr v \<Rightarrow> (case getV a rs of Inl e \<Rightarrow> Inl e | Inr vs \<Rightarrow> Inr (v # vs)))"

text \<open>
  The opening lines of every iteration of \<^verbatim>\<open>convergeNodes\<close>, \<^verbatim>\<open>convergeE\<close> and
  \<^verbatim>\<open>convergeState\<close>: \<^verbatim>\<open>gridLimits\<close>, a fresh \<^verbatim>\<open>DiracState\<close> on that grid,
  \<^verbatim>\<open>k\<close>, \<^verbatim>\<open>E\<close> and the sampled potential.
\<close>

definition trialState :: "DiracAtom \<Rightarrow> real \<Rightarrow> int \<Rightarrow> error + DiracState" where
  "trialState a En k =
     (case gridLimits a En k of
        Inl e \<Rightarrow> Inl e
      | Inr (i0, i1) \<Rightarrow>
          (case DiracState_grid (at_rc a) (at_dx a) i0 i1 of
             Inl e \<Rightarrow> Inl e
           | Inr st \<Rightarrow>
               (case getV a (grid st) of
                  Inl e \<Rightarrow> Inl e
                | Inr vs \<Rightarrow> Inr (st\<lparr>st_k := k, st_E := En, st_V := vs\<rparr>))))"

text \<open>
  \<^verbatim>\<open>DiracState::continuify\<close> (and the same loop written out in
  \<^verbatim>\<open>convergeState\<close>): from index \<open>tp.i\<close> on, \<^verbatim>\<open>P\<close> and \<^verbatim>\<open>Q\<close> are multiplied by
  \<open>Pi / Pe\<close>. A negative \<open>tp.i\<close> indexes before the arrays.
\<close>

definition scale_from :: "int \<Rightarrow> nat \<Rightarrow> real \<Rightarrow> real list \<Rightarrow> real list" where
  "scale_from i0 N f xs =
     map (\<lambda>(j, v). if i0 \<le> int j \<and> j < N then v * f else v) (enumerate 0 xs)"

definition continuify :: "TurningPoint \<Rightarrow> DiracState \<Rightarrow> error + DiracState" where
  "continuify tp st =
     (let N = length (st_P st); f = tp_Pi tp / tp_Pe tp in
        if tp_i tp < 0 then Inl (undefined_read ''P[tp.i]'')
        else Inr (st\<lparr>st_P := scale_from (tp_i tp) N f (st_P st),
                     st_Q := scale_from (tp_i tp) N f (st_Q st)\<rparr>))"

definition findNodes :: "externals \<Rightarrow> DiracState \<Rightarrow> DiracState" where
  "findNodes x st =
     st\<lparr>nodes := ext_countNodes x (st_P st), nodesQ := ext_countNodes x (st_Q st)\<rparr>"

text \<open>\<^verbatim>\<open>DiracState::norm\<close> and the normalisation loop.\<close>

definition DiracState_norm :: "externals \<Rightarrow> DiracState \<Rightarrow> real" where
  "DiracState_norm x st =
     sqrt (ext_trapz x (loggrid st)
       (map (\<lambda>(p, q, g). (p ^ 2 + q ^ 2) * g) (zip (st_P st) (zip (st_Q st) (grid st)))))"

definition normalize :: "externals \<Rightarrow> DiracState \<Rightarrow> DiracState" where
  "normalize x st =
     (let n = DiracState_norm x st in
        st\<lparr>st_P := map (\<lambda>p. p / n) (st_P st), st_Q := map (\<lambda>q. q / n) (st_Q st)\<rparr>)"

text \<open>
  \<^verbatim>\<open>integrateState(state, tp)\<close>: the guard on an empty grid, then the boundary
  conditions and the shooting, which receive \<^verbatim>\<open>R > state.grid[0]\<close>.
\<close>

definition integrateState ::
  "externals \<Rightarrow> DiracAtom \<Rightarrow> DiracState \<Rightarrow> error + (DiracState \<times> TurningPoint)" where
  "integrateState x a st =
     (case grid st of
        [] \<Rightarrow> Inl (runtime_error ''Can not integrate state with zero-sized grid'')
      | r0 # _ \<Rightarrow>
          (case ext_shoot x (at_mu a) (at_Z a) (at_dx a) (r0 < at_R a) st of
             Inl e \<Rightarrow> Inl e
           | Inr (q, p, tp) \<Rightarrow> Inr (st\<lparr>st_Q := q, st_P := p\<rparr>, tp)))"

text \<open>\<^verbatim>\<open>integrateState(state, tp, dE)\<close>\<close>

definition integrateState_dE ::
  "externals \<Rightarrow> DiracAtom \<Rightarrow> DiracState \<Rightarrow> error + (DiracState \<times> TurningPoint \<times> double)" where
  "integrateState_dE x a st =
     (case integrateState x a st of
        Inl e \<Rightarrow> Inl e
      | Inr (st', tp) \<Rightarrow> Inr (st', tp, ext_dE x (at_mu a) (at_dx a) st' tp))"

text \<open>
  \<^verbatim>\<open>stateIntegrate\<close>, which \<^verbatim>\<open>convergeState\<close> calls: the same computation without
  the guard, so that an empty grid is read at index 0.
\<close>

definition stateIntegrate ::
  "externals \<Rightarrow> DiracAtom \<Rightarrow> DiracState \<Rightarrow> error + (DiracState \<times> TurningPoint \<times> double)" where
  "stateIntegrate x a st =
     (case grid st of
        [] \<Rightarrow> Inl (undefined_read ''grid[0]'')
      | r0 # _ \<Rightarrow>
          (case ext_shoot x (at_mu a) (at_Z a) (at_dx a) (r0 < at_R a) st of
             Inl e \<Rightarrow> Inl e
           | Inr (q, p, tp) \<Rightarrow>
               (let st' = st\<lparr>st_Q := q, st_P := p\<rparr>
                in Inr (st', tp, ext_dE x (at_mu a) (at_dx a) st' tp))))"

section \<open>atom.cpp: the damped energy step\<close>

text \<open>
  The tests that \<^verbatim>\<open>convergeE\<close> and \<^verbatim>\<open>convergeState\<close> apply to \<open>dE\<close>; the energy
  \<open>E\<close> and the tolerances are finite.
  \<^item> \<^verbatim>\<open>abs(dE) < Etol\<close>;
  \<^item> \<^verbatim>\<open>abs(dE / E) > max_dE_ratio\<close>: with \<open>E = 0\<close> the quotient is infinite for
    \<open>dE \<noteq> 0\<close> and NaN for \<open>dE = 0\<close>;
  \<^item> \<^verbatim>\<open>dE > 0\<close>.
\<close>

definition dabs_less :: "double \<Rightarrow> real \<Rightarrow> bool" where
  "dabs_less dE tol = (case dE of Num d \<Rightarrow> \<bar>d\<bar> < tol | _ \<Rightarrow> False)"

definition ratio_exceeded :: "double \<Rightarrow> real \<Rightarrow> real \<Rightarrow> bool" where
  "ratio_exceeded dE En ratio =
     (case dE of
        Num d \<Rightarrow> (if En \<noteq> 0 then ratio < \<bar>d / En\<bar> else d \<noteq> 0)
      | PInf \<Rightarrow> True
      | NInf \<Rightarrow> True
      | NaN \<Rightarrow> False)"

definition dpositive :: "double \<Rightarrow> bool" where
  "dpositive dE = (case dE of Num d \<Rightarrow> 0 < d | PInf \<Rightarrow> True | _ \<Rightarrow> False)"

definition dval :: "double \<Rightarrow> real" where
  "dval dE = (case dE of Num d \<Rightarrow> d | _ \<Rightarrow> 0)"

text \<open>
  \<^verbatim>\<open>if (abs(dE / E) > max_dE_ratio) dE = abs(E) * max_dE_ratio * (dE > 0 ? 1 : -1);\<close>
\<close>

definition clamp_dE :: "DiracAtom \<Rightarrow> real \<Rightarrow> double \<Rightarrow> double" where
  "clamp_dE a En dE =
     (if ratio_exceeded dE En (max_dE_ratio a) then
        Num (\<bar>En\<bar> * max_dE_ratio a * (if dpositive dE then 1 else - 1))
      else dE)"

text \<open>
  \<^verbatim>\<open>E = E - dE * Edamp\<close> after the clamp. An infinite \<open>dE\<close> is always clamped, so the
  result is a number unless \<open>dE\<close> is NaN.
\<close>

definition damped_step :: "DiracAtom \<Rightarrow> real \<Rightarrow> double \<Rightarrow> double" where
  "damped_step a En dE =
     (case clamp_dE a En dE of Num d \<Rightarrow> Num (En - d * Edamp a) | _ \<Rightarrow> NaN)"

text \<open>What one pass through a loop body does: leave the function, or go on.\<close>

datatype ('r, 's) outcome = Return 'r | Continue 's

section \<open>atom.cpp: convergeE\<close>

text \<open>
  One iteration of the loop of \<^verbatim>\<open>convergeE\<close> at energy \<open>En\<close>. On convergence the
  state gets \<open>E - dE\<close>, is made continuous and its nodes are counted.
\<close>

definition convergeE_body ::
  "externals \<Rightarrow> DiracAtom \<Rightarrow> int \<Rightarrow> real
     \<Rightarrow> error + (DiracState \<times> TurningPoint, DiracState \<times> TurningPoint \<times> real) outcome" where
  "convergeE_body x a k En =
     (case trialState a En k of
        Inl e \<Rightarrow> Inl e
      | Inr st0 \<Rightarrow>
          (case integrateState_dE x a st0 of
             Inl e \<Rightarrow> Inl e
           | Inr (st, tp, dE) \<Rightarrow>
               if isnan dE then
                 Inl (runtime_error ''Invalid dE value returned by integrateState'')
               else if dabs_less dE (Etol a) then
                 (case continuify tp (st\<lparr>st_E := En - dval dE\<rparr>) of
                    Inl e \<Rightarrow> Inl e
                  | Inr st' \<Rightarrow> Inr (Return (findNodes x st', tp)))
               else
                 (case damped_step a En dE of
                    Num En' \<Rightarrow> Inr (Continue (st, tp, En'))
                  | _ \<Rightarrow> Inl (undefined_read ''E''))))"

text \<open>
  The loop \<^verbatim>\<open>for (int it = 0; it < maxit; ++it)\<close>, with the iterations left as
  the first argument. When none is left the function ends: \<^verbatim>\<open>convergeE\<close> returns
  to its caller with \<^verbatim>\<open>state\<close> and \<^verbatim>\<open>tp\<close> as the last iteration left them.
\<close>

fun convergeE_loop ::
  "externals \<Rightarrow> DiracAtom \<Rightarrow> int \<Rightarrow> nat \<Rightarrow> real \<Rightarrow> DiracState \<times> TurningPoint
     \<Rightarrow> error + (DiracState \<times> TurningPoint)" where
  "convergeE_loop x a k 0 En cur = Inr cur"
| "convergeE_loop x a k (Suc n) En cur =
     (case convergeE_body x a k En of
        Inl e \<Rightarrow> Inl e
      | Inr (Return r) \<Rightarrow> Inr r
      | Inr (Continue (st, tp, En')) \<Rightarrow> convergeE_loop x a k n En' (st, tp))"

text \<open>
  \<^verbatim>\<open>convergeE(state, tp)\<close>: the result is the pair of the two reference
  parameters at a normal return.
\<close>

definition convergeE ::
  "externals \<Rightarrow> DiracAtom \<Rightarrow> DiracState \<Rightarrow> TurningPoint \<Rightarrow> error + (DiracState \<times> TurningPoint)" where
  "convergeE x a st tp = convergeE_loop x a (st_k st) (nat (maxit a)) (st_E st) (st, tp)"

section \<open>atom.cpp: convergeNodes\<close>

text \<open>
  The local variables of \<^verbatim>\<open>convergeNodes\<close> together with its reference parameters.
\<close>

record nodes_search =
  ns_El :: real
  ns_Er :: real
  ns_oldEl :: real
  ns_oldEr :: real
  ns_minE :: real
  ns_maxE :: real
  ns_nl :: int
  ns_nr :: int
  ns_state :: DiracState
  ns_tp :: TurningPoint

text \<open>
  One trial: a fresh state at energy \<open>En\<close>, integrated, made continuous, nodes counted.
\<close>

definition nodeTrial ::
  "externals \<Rightarrow> DiracAtom \<Rightarrow> int \<Rightarrow> real \<Rightarrow> error + (DiracState \<times> TurningPoint)" where
  "nodeTrial x a k En =
     (case trialState a En k of
        Inl e \<Rightarrow> Inl e
      | Inr st0 \<Rightarrow>
          (case integrateState x a st0 of
             Inl e \<Rightarrow> Inl e
           | Inr (st, tp) \<Rightarrow>
               (case continuify tp st of
                  Inl e \<Rightarrow> Inl e
                | Inr st' \<Rightarrow> Inr (findNodes x st', tp))))"

text \<open>
  The block \<^verbatim>\<open>if (El != oldEl) { ... }\<close>: the trial at the lower energy, skipped
  when that energy was tried before; it returns when the target is met.
\<close>

definition trial_left ::
  "externals \<Rightarrow> DiracAtom \<Rightarrow> int \<Rightarrow> int \<Rightarrow> nodes_search
     \<Rightarrow> error + (nodes_search, nodes_search) outcome" where
  "trial_left x a k targ_nodes s =
     (if ns_El s \<noteq> ns_oldEl s then
        (case nodeTrial x a k (ns_El s) of
           Inl e \<Rightarrow> Inl e
         | Inr (st, tp) \<Rightarrow>
             (let s' = s\<lparr>ns_state := st, ns_tp := tp, ns_nl := nodes st\<rparr> in
                if nodes st = targ_nodes then Inr (Return s') else Inr (Continue s')))
      else Inr (Continue s))"

text \<open>The block \<^verbatim>\<open>if (Er != oldEr) { ... }\<close>.\<close>

definition trial_right ::
  "externals \<Rightarrow> DiracAtom \<Rightarrow> int \<Rightarrow> int \<Rightarrow> nodes_search
     \<Rightarrow> error + (nodes_search, nodes_search) outcome" where
  "trial_right x a k targ_nodes s =
     (if ns_Er s \<noteq> ns_oldEr s then
        (case nodeTrial x a k (ns_Er s) of
           Inl e \<Rightarrow> Inl e
         | Inr (st, tp) \<Rightarrow>
             (let s' = s\<lparr>ns_state := st, ns_tp := tp, ns_nr := nodes st\<rparr> in
                if nodes st = targ_nodes then Inr (Return s') else Inr (Continue s')))
      else Inr (Continue s))"

text \<open>The four-way case distinction on the signs of \<open>dl\<close> and \<open>dr\<close>.\<close>

definition narrow_bracket :: "int \<Rightarrow> nodes_search \<Rightarrow> error + nodes_search" where
  "narrow_bracket targ_nodes s =
     (let dl = ns_nl s - targ_nodes; dr = ns_nr s - targ_nodes in
        if 0 < dl \<and> 0 < dr then
          Inr (s\<lparr>ns_oldEr := ns_Er s, ns_Er := ns_El s,
                 ns_El := (ns_minE s + ns_El s) / 2, ns_maxE := ns_El s\<rparr>)
        else if dl < 0 \<and> dr < 0 then
          Inr (s\<lparr>ns_oldEl := ns_El s, ns_El := ns_Er s,
                 ns_Er := (ns_maxE s + ns_Er s) / 2, ns_minE := ns_Er s\<rparr>)
        else if dl < 0 \<and> 0 < dr then
          Inr (s\<lparr>ns_oldEl := ns_El s, ns_minE := ns_El s,
                 ns_El := (ns_El s + ns_Er s) / 2\<rparr>)
        else
          Inl (runtime_error
            ''convergeNodes failed - higher number of nodes for lower energy''))"

text \<open>One iteration of the loop of \<^verbatim>\<open>convergeNodes\<close>.\<close>

definition convergeNodes_body ::
  "externals \<Rightarrow> DiracAtom \<Rightarrow> int \<Rightarrow> int \<Rightarrow> nodes_search
     \<Rightarrow> error + (nodes_search, nodes_search) outcome" where
  "convergeNodes_body x a k targ_nodes s =
     (case trial_left x a k targ_nodes s of
        Inl e \<Rightarrow> Inl e
      | Inr (Return s1) \<Rightarrow> Inr (Return s1)
      | Inr (Continue s1) \<Rightarrow>
          (case trial_right x a k targ_nodes s1 of
             Inl e \<Rightarrow> Inl e
           | Inr (Return s2) \<Rightarrow> Inr (Return s2)
           | Inr (Continue s2) \<Rightarrow>
               (case narrow_bracket targ_nodes s2 of
                  Inl e \<Rightarrow> Inl e
                | Inr s3 \<Rightarrow> Inr (Continue s3))))"

text \<open>
  The loop, with the iterations left as the first argument; after the last one the
  function throws.
\<close>

fun convergeNodes_loop ::
  "externals \<Rightarrow> DiracAtom \<Rightarrow> int \<Rightarrow> int \<Rightarrow> nat \<Rightarrow> nodes_search \<Rightarrow> error + nodes_search" where
  "convergeNodes_loop x a k targ_nodes 0 s =
     Inl (runtime_error
       ''convergeNodes failed to find a suitable state - maximum iterations hit'')"
| "convergeNodes_loop x a k targ_nodes (Suc n) s =
     (case convergeNodes_body x a k targ_nodes s of
        Inl e \<Rightarrow> Inl e
      | Inr (Return s') \<Rightarrow> Inr s'
      | Inr (Continue s') \<Rightarrow> convergeNodes_loop x a k targ_nodes n s')"

text \<open>
  \<^verbatim>\<open>convergeNodes(state, tp, targ_nodes, minE, maxE)\<close>. The locals \<^verbatim>\<open>nl\<close> and
  \<^verbatim>\<open>nr\<close> are declared without a value; \<open>nl0\<close> and \<open>nr0\<close> stand for what they hold.
  The result is the four reference parameters at a normal return.
\<close>

definition convergeNodes_init ::
  "DiracState \<Rightarrow> TurningPoint \<Rightarrow> real \<Rightarrow> real \<Rightarrow> int \<Rightarrow> int \<Rightarrow> nodes_search" where
  "convergeNodes_init st tp minE maxE nl0 nr0 =
     \<lparr>ns_El = minE + (maxE - minE) / 3, ns_Er = maxE - (maxE - minE) / 3,
      ns_oldEl = maxE + 1, ns_oldEr = maxE + 1, ns_minE = minE, ns_maxE = maxE,
      ns_nl = nl0, ns_nr = nr0, ns_state = st, ns_tp = tp\<rparr>"

definition convergeNodes ::
  "externals \<Rightarrow> DiracAtom \<Rightarrow> DiracState \<Rightarrow> TurningPoint \<Rightarrow> int \<Rightarrow> real \<Rightarrow> real \<Rightarrow> int \<Rightarrow> int
     \<Rightarrow> error + (DiracState \<times> TurningPoint \<times> real \<times> real)" where
  "convergeNodes x a st tp targ_nodes minE maxE nl0 nr0 =
     (case convergeNodes_loop x a (st_k st) targ_nodes (nat (maxit a))
             (convergeNodes_init st tp minE maxE nl0 nr0) of
        Inl e \<Rightarrow> Inl e
      | Inr s \<Rightarrow> Inr (ns_state s, ns_tp s, ns_minE s, ns_maxE s))"

section \<open>atom.cpp: convergeState\<close>

text \<open>
  One iteration of the loop of \<^verbatim>\<open>convergeState\<close>. A NaN \<open>dE\<close> is not clamped and
  makes the new energy NaN, which throws.
\<close>

definition convergeState_body ::
  "externals \<Rightarrow> DiracAtom \<Rightarrow> int \<Rightarrow> real
     \<Rightarrow> error + (DiracState \<times> TurningPoint, DiracState \<times> TurningPoint \<times> real) outcome" where
  "convergeState_body x a k En =
     (case trialState a En k of
        Inl e \<Rightarrow> Inl e
      | Inr st0 \<Rightarrow>
          (case stateIntegrate x a st0 of
             Inl e \<Rightarrow> Inl e
           | Inr (st, tp, dE) \<Rightarrow>
               if \<not> isnan dE \<and> dabs_less dE (Etol a) then Inr (Return (st, tp))
               else
                 (case damped_step a En dE of
                    Num En' \<Rightarrow> Inr (Continue (st, tp, En'))
                  | _ \<Rightarrow> Inl (thrown_literal ''NAN ENERGY''))))"

text \<open>
  The loop. It ends by \<^verbatim>\<open>break\<close> or by running out of iterations; either way the
  code after it works on the state of the last iteration. \<open>None\<close> is the case of no
  iteration at all, where \<^verbatim>\<open>tp\<close> and \<^verbatim>\<open>N\<close> were never assigned.
\<close>

fun convergeState_loop ::
  "externals \<Rightarrow> DiracAtom \<Rightarrow> int \<Rightarrow> nat \<Rightarrow> real \<Rightarrow> (DiracState \<times> TurningPoint) option
     \<Rightarrow> error + (DiracState \<times> TurningPoint) option" where
  "convergeState_loop x a k 0 En cur = Inr cur"
| "convergeState_loop x a k (Suc n) En cur =
     (case convergeState_body x a k En of
        Inl e \<Rightarrow> Inl e
      | Inr (Return r) \<Rightarrow> Inr (Some r)
      | Inr (Continue (st, tp, En')) \<Rightarrow> convergeState_loop x a k n En' (Some (st, tp)))"

text \<open>
  \<^verbatim>\<open>convergeState(E0, k)\<close> up to its last statement: after the loop the state is
  made continuous and normalised, the nodes of \<^verbatim>\<open>P\<close> and \<^verbatim>\<open>Q\<close> are counted and
  compared, and the state is marked as initialised. The result is the local
  \<^verbatim>\<open>state\<close> as it stands at \<^verbatim>\<open>return state;\<close>.
\<close>

definition convergeState_local ::
  "externals \<Rightarrow> DiracAtom \<Rightarrow> real \<Rightarrow> int \<Rightarrow> error + DiracState" where
  "convergeState_local x a E0 k =
     (case convergeState_loop x a k (nat (maxit a)) E0 None of
        Inl e \<Rightarrow> Inl e
      | Inr None \<Rightarrow> Inl (undefined_read ''tp'')
      | Inr (Some (st, tp)) \<Rightarrow>
          (case continuify tp st of
             Inl e \<Rightarrow> Inl e
           | Inr st1 \<Rightarrow>
               (let st2 = normalize x st1;
                    Pn = ext_countNodes x (st_P st2);
                    Qn = ext_countNodes x (st_Q st2)
                in
                  case grid st2 of
                    [] \<Rightarrow> Inl (undefined_read ''grid[0]'')
                  | r0 # _ \<Rightarrow>
                      if Qn - Pn \<noteq> (if r0 < at_R a then 1 else 0) then
                        Inl (thrown_literal ''NODES WRONG'')
                      else Inr (st2\<lparr>nodes := Pn, nodesQ := Qn, init := True\<rparr>))))"

text \<open>
  \<^verbatim>\<open>return state;\<close> hands the caller either the local object itself or the object
  that the copy constructor makes of it, which has \<^verbatim>\<open>nodes\<close>, \<^verbatim>\<open>E\<close>, \<^verbatim>\<open>k\<close>,
  the grid, \<^verbatim>\<open>Q\<close> and \<^verbatim>\<open>P\<close> of the local one and \<^verbatim>\<open>init = true\<close>, but
  neither its \<^verbatim>\<open>nodesQ\<close> nor its \<^verbatim>\<open>V\<close>.
\<close>

definition return_value :: "externals \<Rightarrow> DiracState \<Rightarrow> DiracState" where
  "return_value x st = (if ext_elide x then st else DiracState_copy st)"

text \<open>\<^verbatim>\<open>convergeState(E0, k)\<close> as its caller sees it.\<close>

definition convergeState :: "externals \<Rightarrow> DiracAtom \<Rightarrow> real \<Rightarrow> int \<Rightarrow> error + DiracState" where
  "convergeState x a E0 k =
     (case convergeState_local x a E0 k of
        Inl e \<Rightarrow> Inl e
      | Inr st \<Rightarrow> Inr (return_value x st))"

section \<open>atom.cpp: energyLimits, calcState, getState\<close>

text \<open>
  The body of the loop of \<^verbatim>\<open>energyLimits\<close> over the cache, for the target
  \<open>(n, l, s)\<close>: an entry with the same \<open>l\<close> and \<open>s\<close> raises the lower bound to its
  energy when its \<open>n\<close> is at most the target's, and lowers the upper bound otherwise.
  The lower bound starts from the potential at the origin and may be special.
\<close>

fun energyLimits_scan ::
  "int \<Rightarrow> int \<Rightarrow> bool \<Rightarrow> qnums \<times> DiracState \<Rightarrow> double \<times> real \<Rightarrow> double \<times> real" where
  "energyLimits_scan n l s ((itn, itl, its), st) (minE, maxE) =
     (if itl = l \<and> its = s then
        (if itn \<le> n then (dmax minE (Num (st_E st)), maxE)
         else (minE, min maxE (st_E st)))
      else (minE, maxE))"

definition energyLimits :: "DiracAtom \<Rightarrow> int \<Rightarrow> int \<Rightarrow> error + (double \<times> real)" where
  "energyLimits a nodes_target k =
     (let (l, s) = qnumDirac2Schro k;
          n = qnumNodes2Principal nodes_target l
      in
        case at_V a 0 of
          Inl e \<Rightarrow> Inl e
        | Inr v0 \<Rightarrow>
            Inr (fold (energyLimits_scan n l s) (states a)
                   (dmax (dadd v0 (restE a)) (Num (- restE a)), restE a)))"

text \<open>
  The energy guess of \<^verbatim>\<open>calcState\<close> is a double: the potential at the origin may be
  infinite, and the rescaling divides by \<open>Esearch\<close>. For a finite nucleus,
  \<^verbatim>\<open>if (E0 - restE < V.V(0)) E0 = V.V(0) + restE + 0.1;\<close>
\<close>

definition raise_guess :: "DiracAtom \<Rightarrow> real \<Rightarrow> error + double" where
  "raise_guess a E0 =
     (if 0 < at_R a then
        (case at_V a 0 of
           Inl e \<Rightarrow> Inl e
         | Inr v0 \<Rightarrow>
             if dless (Num (E0 - restE a)) v0 then Inr (dadd (dadd v0 (restE a)) 0.1)
             else Inr (Num E0))
      else Inr (Num E0))"

text \<open>\<^verbatim>\<open>E0 = dnode > 0 ? E0 / Esearch : E0 * Esearch;\<close>\<close>

definition rescale_guess :: "DiracAtom \<Rightarrow> int \<Rightarrow> double \<Rightarrow> double" where
  "rescale_guess a dnode E0 =
     (case E0 of
        Num e \<Rightarrow> (if 0 < dnode then ddiv e (Esearch a) else Num (e * Esearch a))
      | d \<Rightarrow> d)"

text \<open>
  \<^verbatim>\<open>convergeState\<close> on a guess that may be special: with an infinite guess the first
  call of \<^verbatim>\<open>gridLimits\<close> finds a negative momentum term.
\<close>

definition convergeState_guess ::
  "externals \<Rightarrow> DiracAtom \<Rightarrow> double \<Rightarrow> int \<Rightarrow> error + DiracState" where
  "convergeState_guess x a E0 k =
     (case E0 of
        Num e \<Rightarrow> convergeState x a e k
      | NaN \<Rightarrow> Inl (undefined_read ''non-finite grid limit'')
      | _ \<Rightarrow>
          if 0 < maxit a then Inl (atom_error UNBOUND_STATE)
          else Inl (undefined_read ''tp''))"

text \<open>
  The search loop of \<^verbatim>\<open>calcState\<close>: iterations left, the guess, the local
  \<^verbatim>\<open>state\<close> and the cache. A state with the wrong principal number is stored under
  its own key and the guess is rescaled. The loop ends by \<^verbatim>\<open>break\<close> or by running
  out of iterations, and yields the local \<^verbatim>\<open>state\<close> in both cases; an exception
  leaves the cache as it is at that moment.
\<close>

fun calcState_loop ::
  "externals \<Rightarrow> DiracAtom \<Rightarrow> int \<Rightarrow> int \<Rightarrow> bool \<Rightarrow> int \<Rightarrow> int \<Rightarrow> nat \<Rightarrow> double \<Rightarrow> DiracState
     \<Rightarrow> cache \<Rightarrow> (error + DiracState) \<times> cache" where
  "calcState_loop x a n l s k dnode 0 E0 st m = (Inr st, m)"
| "calcState_loop x a n l s k dnode (Suc i) E0 st m =
     (case convergeState_guess x a E0 k of
        Inl e \<Rightarrow> (Inl e, m)
      | Inr st' \<Rightarrow>
          if getn st' = n then (Inr st', m)
          else calcState_loop x a n l s k dnode i (rescale_guess a dnode E0) st'
                 (states_put (getn st', l, s) st' m))"

text \<open>
  \<^verbatim>\<open>calcState(n, l, s, force)\<close>. The local \<^verbatim>\<open>dnode\<close> is declared without a value and
  never assigned; the parameter \<open>dnode\<close> stands for what it holds. The result is the
  outcome together with the atom, whose cache the call has changed.
\<close>

definition calcState ::
  "externals \<Rightarrow> DiracAtom \<Rightarrow> int \<Rightarrow> int \<Rightarrow> bool \<Rightarrow> bool \<Rightarrow> int \<Rightarrow> (error + unit) \<times> DiracAtom" where
  "calcState x a n l s force dnode =
     (let k = (if s \<and> 0 < l then l else - l - 1);
          (present, m1) =
            (if \<not> force then
               (let (v, m) = states_subscript (n, l, s) (states a) in (init v, m))
             else (False, states a))
      in
        if present then (Inr (), a\<lparr>states := m1\<rparr>)
        else
          (case raise_guess a (ext_hydrogenic x (at_Z a) (at_mu a) n k) of
             Inl e \<Rightarrow> (Inl e, a\<lparr>states := m1\<rparr>)
           | Inr E0 \<Rightarrow>
               (case calcState_loop x a n l s k dnode (nat (maxit a)) E0
                       DiracState_default m1 of
                  (Inl e, m2) \<Rightarrow> (Inl e, a\<lparr>states := m2\<rparr>)
                | (Inr st, m2) \<Rightarrow> (Inr (), a\<lparr>states := states_put (n, l, s) st m2\<rparr>))))"

text \<open>
  \<^verbatim>\<open>getState(n, l, s)\<close>. It calls \<^verbatim>\<open>calcState(n, l, s)\<close>, that is with
  \<open>force = false\<close>. \<^verbatim>\<open>DiracState st = states[...]\<close> builds \<open>st\<close> with the copy
  constructor, and so does the \<^verbatim>\<open>return\<close>.
\<close>

definition getState ::
  "externals \<Rightarrow> DiracAtom \<Rightarrow> int \<Rightarrow> int \<Rightarrow> bool \<Rightarrow> int \<Rightarrow> (error + DiracState) \<times> DiracAtom" where
  "getState x a n l s dnode =
     (case calcState x a n l s False dnode of
        (Inl e, a') \<Rightarrow> (Inl e, a')
      | (Inr u, a') \<Rightarrow>
          (let (v, m) = states_subscript (n, l, s) (states a');
               st = DiracState_copy v;
               a'' = a'\<lparr>states := m\<rparr>
           in
             if \<not> init st then (Inl (thrown_literal ''MAXIT REACHED''), a'')
             else (Inr (DiracState_copy st), a'')))"

section \<open>Auxiliary predicates and example inputs\<close>

text \<open>
  A state sits on the logarithmic grid of its atom: its radii are
  \<open>rc * exp (i * dx)\<close> for the indices between its two grid indices.
\<close>

definition on_log_grid :: "DiracAtom \<Rightarrow> DiracState \<Rightarrow> bool" where
  "on_log_grid a st =
     (fst (grid_indices st) \<le> snd (grid_indices st) \<and> 0 < at_rc a \<and>
      grid st = map (\<lambda>i. at_rc a * exp (real_of_int i * at_dx a))
                  [fst (grid_indices st) .. snd (grid_indices st)])"

text \<open>
  \<open>n\<close> iterations of \<^verbatim>\<open>convergeNodes\<close> in a row in which neither trial meets the
  target and nothing is thrown.
\<close>

fun no_trial_succeeds ::
  "externals \<Rightarrow> DiracAtom \<Rightarrow> int \<Rightarrow> int \<Rightarrow> nat \<Rightarrow> nodes_search \<Rightarrow> bool" where
  "no_trial_succeeds x a k targ_nodes 0 s = True"
| "no_trial_succeeds x a k targ_nodes (Suc n) s =
     (case convergeNodes_body x a k targ_nodes s of
        Inr (Continue s') \<Rightarrow> no_trial_succeeds x a k targ_nodes n s'
      | _ \<Rightarrow> False)"

text \<open>
  The clamp as the specification words it:
  \<open>clamp(dE) = sign(dE) |E| maxStepRatio\<close> if \<open>|dE / E|\<close> exceeds the ratio, else \<open>dE\<close>.
\<close>

definition clamp_spec :: "real \<Rightarrow> real \<Rightarrow> real \<Rightarrow> real" where
  "clamp_spec ratio En dE = (if ratio < \<bar>dE / En\<bar> then sgn dE * \<bar>En\<bar> * ratio else dE)"

text \<open>
  An atom of charge \<open>Z\<close> and nuclear radius \<open>R\<close> with a particle of unit mass, as the
  constructors set it up: \<open>mu = m\<close>, \<open>rc = fc / (Z * mu)\<close> with \<open>fc = 1\<close>,
  \<open>restE = mu * c\<^sup>2\<close>, the Coulomb potential. The iteration budget is the third
  argument; the other tolerances are example values.
\<close>

definition example_atom :: "real \<Rightarrow> real \<Rightarrow> int \<Rightarrow> DiracAtom" where
  "example_atom Z R mx =
     \<lparr>at_Z = Z, at_mu = 1, at_R = R, at_rc = 1 / Z, at_dx = 0.005, restE = c ^ 2,
      at_V = CoulombSphere_V (CoulombSpherePotential Z R), states = [],
      maxit = mx, Etol = 1 / 10 ^ 7, Esearch = 1.2, max_dE_ratio = 0.1, Edamp = 0.5,
      in_eps = 1 / 10 ^ 5, out_eps = 1 / 10 ^ 5\<rparr>"

text \<open>
  Stand-ins for the library routines, to run the functions on concrete inputs: the
  shooting fills \<open>P\<close> with the state's energy and \<open>Q\<close> with \<open>- 1\<close> and reports the
  turning point at index 0 with equal amplitudes; the energy correction is \<open>corr\<close> of
  the energy; \<^verbatim>\<open>countNodes\<close> is \<open>cnt\<close> of the first entry; the quadrature is 1; the
  hydrogenic energy is \<open>guess\<close>. The return of \<^verbatim>\<open>convergeState\<close> is elided.
\<close>

definition example_ext :: "(real \<Rightarrow> double) \<Rightarrow> (real \<Rightarrow> int) \<Rightarrow> real \<Rightarrow> externals" where
  "example_ext corr cnt guess =
     \<lparr>ext_shoot = (\<lambda>mu Z dx inside st.
        Inr (map (\<lambda>r. - 1) (grid st), map (\<lambda>r. st_E st) (grid st),
             \<lparr>tp_i = 0, tp_Qi = 1, tp_Qe = 1, tp_Pi = 1, tp_Pe = 1\<rparr>)),
      ext_dE = (\<lambda>mu dx st tp. corr (st_E st)),
      ext_countNodes = (\<lambda>xs. case xs of [] \<Rightarrow> 0 | v # vs \<Rightarrow> cnt v),
      ext_trapz = (\<lambda>xs ys. 1),
      ext_hydrogenic = (\<lambda>Z mu n k. guess),
      ext_elide = True\<rparr>"

section \<open>Properties of the sphere Coulomb potential\<close>

lemma CoulombSphere_V_inside:
  assumes "0 \<le> r" and "r < R"
  shows "CoulombSphere_V (CoulombSpherePotential Z R) r =
         Inr (Num (Z * r ^ 2 / (2 * R ^ 3) - 1.5 * Z / R))"
proof -
  from assms have "0 < R" by simp
  with assms show ?thesis
    by (simp add: CoulombSphere_V_def CoulombSpherePotential_def)
qed

lemma CoulombSphere_V_outside:
  assumes "0 < r" and "R \<le> r"
  shows "CoulombSphere_V (CoulombSpherePotential Z R) r = Inr (Num (- Z / r))"
  using assms by (simp add: CoulombSphere_V_def CoulombSpherePotential_def ddiv_def)

lemma CoulombSphere_branches_meet:
  assumes "0 < R"
  shows "Z * R ^ 2 / (2 * R ^ 3) - 1.5 * Z / R = - Z / (R::real)"
proof -
  from assms have "Z * R ^ 2 / (2 * R ^ 3) = Z / (2 * R)"
    by (simp add: power2_eq_square power3_eq_cube)
  then show ?thesis by (simp add: field_simps)
qed

lemma CoulombSphere_V_negative:
  assumes "r < 0"
  shows "CoulombSphere_V p r =
         Inl (invalid_argument ''Negative radius not allowed for CoulombPotential'')"
  using assms by (simp add: CoulombSphere_V_def)

text \<open>
  Claim C7. For a radius \<open>r \<ge> 0\<close> the sphere Coulomb potential returns
  \<open>Z r\<^sup>2 / (2 R\<^sup>3) - 1.5 Z / R\<close> when \<open>r < R\<close> and \<open>- Z / r\<close> when \<open>r \<ge> R\<close>
  (at \<open>r = 0\<close> that quotient is the IEEE value of a division by zero); for a finite
  nucleus the two expressions agree at \<open>r = R\<close>; and a negative radius is refused
  with \<^verbatim>\<open>invalid_argument\<close>.
\<close>

theorem CoulombSphere_V_spec:
  "(0 \<le> r \<longrightarrow>
      CoulombSphere_V (CoulombSpherePotential Z R) r =
        (if r < R then Inr (Num (Z * r ^ 2 / (2 * R ^ 3) - 1.5 * Z / R))
         else Inr (ddiv (- Z) r)))
   \<and> (0 < r \<longrightarrow> ddiv (- Z) r = Num (- Z / r))
   \<and> (0 < R \<longrightarrow>
        CoulombSphere_V (CoulombSpherePotential Z R) R = Inr (Num (- Z / R))
        \<and> Z * R ^ 2 / (2 * R ^ 3) - 1.5 * Z / R = - Z / R)
   \<and> (r < 0 \<longrightarrow> (\<exists>e. CoulombSphere_V (CoulombSpherePotential Z R) r = Inl e))"
proof (intro conjI impI)
  assume "0 \<le> r"
  then show "CoulombSphere_V (CoulombSpherePotential Z R) r =
        (if r < R then Inr (Num (Z * r ^ 2 / (2 * R ^ 3) - 1.5 * Z / R))
         else Inr (ddiv (- Z) r))"
    using CoulombSphere_V_inside [of r R Z]
    by (simp add: CoulombSphere_V_def CoulombSpherePotential_def)
next
  assume "0 < r"
  then show "ddiv (- Z) r = Num (- Z / r)" by (simp add: ddiv_def)
next
  assume "0 < R"
  then show "CoulombSphere_V (CoulombSpherePotential Z R) R = Inr (Num (- Z / R))"
    using CoulombSphere_V_outside [of R R Z] by simp
next
  assume "0 < R"
  then show "Z * R ^ 2 / (2 * R ^ 3) - 1.5 * Z / R = - Z / R"
    by (rule CoulombSphere_branches_meet)
next
  assume "r < 0"
  then show "\<exists>e. CoulombSphere_V (CoulombSpherePotential Z R) r = Inl e"
    by (simp add: CoulombSphere_V_negative)
qed

theorem CoulombSphere_V_spec_witness:
  "CoulombSphere_V (CoulombSpherePotential 2 4) 2 = Inr (Num (- 11 / 16))
   \<and> CoulombSphere_V (CoulombSpherePotential 2 4) 8 = Inr (Num (- 1 / 4))
   \<and> CoulombSphere_V (CoulombSpherePotential 2 4) 4 = Inr (Num (- 1 / 2))
   \<and> (\<exists>e. CoulombSphere_V (CoulombSpherePotential 2 4) (- 1) = Inl e)"
  using CoulombSphere_V_spec [of 2 2 4] CoulombSphere_V_spec [of 8 2 4]
    CoulombSphere_V_spec [of "- 1" 2 4]
  by simp

section \<open>Properties of the Uehling potential\<close>

lemma Uehling_ctor_fields:
  assumes "UehlingSpherePotential tz hi lo Z R usteps = Inr p"
  shows "usp_R p = R" and "usp_uint0 p = None \<longleftrightarrow> R \<le> 0"
    and "usp_du p = 1 / (real_of_int usteps - 1)"
    and "exp_cutoff_high p = hi" and "exp_cutoff_low p = lo"
  using assms
  by (auto simp: UehlingSpherePotential_def Let_def split: if_splits)

lemma Uehling_V_never_throws:
  "usp_uint0 p \<noteq> None \<Longrightarrow> \<exists>v. Uehling_V tz p r = Inr v"
  by (auto simp: Uehling_V_def Let_def)

text \<open>
  Claim C8 asks the Uehling potential to fail at a negative radius. \<^verbatim>\<open>V\<close> has no
  such exit: for a finite nucleus (here \<open>Z = 1\<close>, \<open>R = 1\<close>, three \<open>u\<close> steps) and
  \<open>r = - 1\<close> it returns a value, whatever the two cut-off constants are.
\<close>

theorem Uehling_V_negative_radius_accepted:
  "\<forall>hi lo. \<exists>p v. UehlingSpherePotential trapzInt hi lo 1 1 3 = Inr p
        \<and> Uehling_V trapzInt p (- 1) = Inr v"
proof (intro allI)
  fix hi lo :: real
  obtain p where p: "UehlingSpherePotential trapzInt hi lo 1 1 3 = Inr p"
    by (simp add: UehlingSpherePotential_def Let_def)
  then have "usp_uint0 p \<noteq> None"
    using Uehling_ctor_fields(2) [OF p] by simp
  then obtain v where "Uehling_V trapzInt p (- 1) = Inr v"
    using Uehling_V_never_throws by blast
  with p show "\<exists>p v. UehlingSpherePotential trapzInt hi lo 1 1 3 = Inr p
        \<and> Uehling_V trapzInt p (- 1) = Inr v" by blast
qed

text \<open>With positive cut-off constants the value at \<open>r = - 1\<close> is \<open>K * uint0\<close>.\<close>

lemma Uehling_V_negative_radius_value:
  "\<exists>p u0. UehlingSpherePotential trapzInt 20 (1 / 10 ^ 5) 1 1 3 = Inr p
      \<and> usp_uint0 p = Some u0
      \<and> Uehling_V trapzInt p (- 1) = Inr (Num (usp_K p * u0))"
  by (simp add: UehlingSpherePotential_def Let_def Uehling_V_def alpha_def)

text \<open>
  Claim C10. The constructor assigns \<open>uint0\<close> exactly when \<open>R > 0\<close>. At a radius in
  the small-radius short cut, \<^verbatim>\<open>V\<close> returns \<open>K * uint0\<close>: a defined value when
  \<open>R > 0\<close>, the read of a member that was never assigned when \<open>R \<le> 0\<close>.
\<close>

theorem Uehling_uint0_precondition:
  assumes "2 \<le> usteps"
    and "UehlingSpherePotential tz hi lo Z R usteps = Inr p"
    and "\<not> exp_cutoff_high p * 0.5 * alpha < r"
    and "r < exp_cutoff_low p * 0.5 * usp_du p * alpha"
  shows "(usp_uint0 p = None \<longleftrightarrow> R \<le> 0)
       \<and> (0 < R \<longrightarrow> (\<exists>u0. usp_uint0 p = Some u0 \<and> Uehling_V tz p r = Inr (Num (usp_K p * u0))))
       \<and> (R \<le> 0 \<longrightarrow> Uehling_V tz p r = Inl (undefined_read ''uint0''))"
proof -
  have u: "usp_uint0 p = None \<longleftrightarrow> R \<le> 0"
    using Uehling_ctor_fields(2) [OF assms(2)] .
  have v: "Uehling_V tz p r =
      (case usp_uint0 p of None \<Rightarrow> Inl (undefined_read ''uint0'')
       | Some u0 \<Rightarrow> Inr (Num (usp_K p * u0)))"
    using assms(3,4) by (simp add: Uehling_V_def)
  show ?thesis
  proof (intro conjI impI)
    show "usp_uint0 p = None \<longleftrightarrow> R \<le> 0" by (rule u)
  next
    assume "0 < R"
    with u obtain u0 where "usp_uint0 p = Some u0" by fastforce
    with v show "\<exists>u0. usp_uint0 p = Some u0 \<and> Uehling_V tz p r = Inr (Num (usp_K p * u0))"
      by simp
  next
    assume "R \<le> 0"
    with u have "usp_uint0 p = None" by simp
    with v show "Uehling_V tz p r = Inl (undefined_read ''uint0'')" by simp
  qed
qed

theorem Uehling_uint0_precondition_witness:
  "(\<exists>p u0. UehlingSpherePotential trapzInt 20 (1 / 10 ^ 5) 1 1 3 = Inr p
       \<and> usp_uint0 p = Some u0 \<and> Uehling_V trapzInt p 0 = Inr (Num (usp_K p * u0)))
   \<and> (\<exists>p. UehlingSpherePotential trapzInt 20 (1 / 10 ^ 5) 1 (- 1) 3 = Inr p
       \<and> usp_uint0 p = None \<and> Uehling_V trapzInt p 0 = Inl (undefined_read ''uint0''))"
proof (intro conjI)
  obtain p where p: "UehlingSpherePotential trapzInt 20 (1 / 10 ^ 5) 1 1 3 = Inr p"
    by (simp add: UehlingSpherePotential_def Let_def)
  have hi: "\<not> exp_cutoff_high p * 0.5 * alpha < 0"
    using Uehling_ctor_fields(4) [OF p] by (simp add: alpha_def)
  have lo: "0 < exp_cutoff_low p * 0.5 * usp_du p * alpha"
    using Uehling_ctor_fields(3,5) [OF p] by (simp add: alpha_def)
  from Uehling_uint0_precondition [OF _ p hi lo] p
  show "\<exists>p u0. UehlingSpherePotential trapzInt 20 (1 / 10 ^ 5) 1 1 3 = Inr p
       \<and> usp_uint0 p = Some u0 \<and> Uehling_V trapzInt p 0 = Inr (Num (usp_K p * u0))"
    by auto
next
  obtain p where p: "UehlingSpherePotential trapzInt 20 (1 / 10 ^ 5) 1 (- 1) 3 = Inr p"
    by (simp add: UehlingSpherePotential_def Let_def)
  have hi: "\<not> exp_cutoff_high p * 0.5 * alpha < 0"
    using Uehling_ctor_fields(4) [OF p] by (simp add: alpha_def)
  have lo: "0 < exp_cutoff_low p * 0.5 * usp_du p * alpha"
    using Uehling_ctor_fields(3,5) [OF p] by (simp add: alpha_def)
  from Uehling_uint0_precondition [OF _ p hi lo] p
  show "\<exists>p. UehlingSpherePotential trapzInt 20 (1 / 10 ^ 5) 1 (- 1) 3 = Inr p
       \<and> usp_uint0 p = None \<and> Uehling_V trapzInt p 0 = Inl (undefined_read ''uint0'')"
    by auto
qed

section \<open>Properties of the grid limits\<close>

lemma c_pos: "0 < c" by (simp add: c_def)

lemma gridLimits_unbound_iff:
  "gridLimits a En k = Inl (atom_error UNBOUND_STATE) \<longleftrightarrow> (at_mu a * c) ^ 2 - (En / c) ^ 2 < 0"
  by (simp add: gridLimits_def Let_def)






section \<open>A trial state exists: the grid limits on ordinary inputs\<close>

lemma inner_radius_bound:
  fixes eps g K :: real
  assumes eps: "0 < eps" "eps \<le> 1" and g: "0 < g" "g \<le> 1" and K: "0 < K"
  shows "0 < eps powr (1 / g) / exp 1 * g / K"
    and "eps powr (1 / g) / exp 1 * g / K \<le> eps / K"
proof -
  have p0: "0 < eps powr (1 / g)" using eps by simp
  then show "0 < eps powr (1 / g) / exp 1 * g / K" using g K by simp
  have "1 \<le> 1 / g" using g by simp
  then have "eps powr (1 / g) \<le> eps powr 1"
    using eps by (intro powr_mono') simp_all
  then have p1: "eps powr (1 / g) \<le> eps" using eps by simp
  have e1: "(1::real) \<le> exp 1" by simp
  have "eps powr (1 / g) / exp 1 \<le> eps powr (1 / g)"
    using p0 e1 by (simp add: field_simps)
  with p1 have p2: "eps powr (1 / g) / exp 1 \<le> eps" by simp
  have p3: "0 \<le> eps powr (1 / g) / exp 1" using p0 by simp
  have "eps powr (1 / g) / exp 1 * g \<le> eps * 1"
    using p2 p3 g eps by (intro mult_mono) simp_all
  then have "eps powr (1 / g) / exp 1 * g \<le> eps" by simp
  moreover have "0 \<le> K" using K by simp
  ultimately show "eps powr (1 / g) / exp 1 * g / K \<le> eps / K"
    by (rule divide_right_mono)
qed

lemma gridLimits_ok:
  assumes K: "0 < (at_mu a * c) ^ 2 - (En / c) ^ 2"
    and g: "0 < (real_of_int k) ^ 2 - (at_Z a * alpha) ^ 2"
           "(real_of_int k) ^ 2 - (at_Z a * alpha) ^ 2 \<le> 1"
    and B: "En \<noteq> restE a"
    and eps: "0 < out_eps a" "out_eps a \<le> 1" "0 < in_eps a" "in_eps a \<le> 1"
    and grid: "0 < at_rc a" "0 < at_dx a" "0 < at_Z a"
    and small: "(in_eps a * \<bar>En - restE a\<bar>) ^ 2 \<le> (at_Z a) ^ 2 * ((at_mu a * c) ^ 2 - (En / c) ^ 2)"
  shows "\<exists>i0 i1. gridLimits a En k = Inr (i0, i1) \<and> i0 \<le> i1
           \<and> at_rc a * exp (real_of_int i0 * at_dx a) \<le> at_Z a / \<bar>En - restE a\<bar>"
proof -
  define K where "K = (at_mu a * c) ^ 2 - (En / c) ^ 2"
  define G where "G = (real_of_int k) ^ 2 - (at_Z a * alpha) ^ 2"
  define r_tp where "r_tp = at_Z a / \<bar>En - restE a\<bar>"
  define r_out where "r_out = r_tp - ln (out_eps a) / sqrt K"
  define r_in where "r_in = in_eps a powr (1 / sqrt G) / exp 1 * sqrt G / sqrt K"
  have K': "0 < sqrt K" using K by (simp add: K_def)
  have G': "0 < sqrt G" "sqrt G \<le> 1" using g by (simp_all add: G_def)
  have Bp: "0 < \<bar>En - restE a\<bar>" using B by simp
  have tp: "0 < r_tp" using grid Bp by (simp add: r_tp_def)
  have "ln (out_eps a) \<le> 0" using eps by simp
  then have "ln (out_eps a) / sqrt K \<le> 0" using K' by (simp add: divide_nonpos_pos)
  then have out: "r_tp \<le> r_out" by (simp add: r_out_def)
  have in0: "0 < r_in" and in1: "r_in \<le> in_eps a / sqrt K"
    unfolding r_in_def using inner_radius_bound [OF eps(3,4) G' K'] by simp_all
  have "in_eps a * \<bar>En - restE a\<bar> \<le> sqrt ((at_Z a) ^ 2 * K)"
    using small by (intro real_le_rsqrt) (simp add: K_def)
  also have "\<dots> = at_Z a * sqrt K"
    using grid by (simp add: real_sqrt_mult)
  finally have "in_eps a / sqrt K \<le> r_tp"
    using K' Bp by (simp add: r_tp_def field_simps)
  with in1 have in2: "r_in \<le> r_tp" by simp
  have "ln (r_in / at_rc a) \<le> ln (r_out / at_rc a)"
    using in0 in2 out grid by (simp add: divide_right_mono)
  then have "ln (r_in / at_rc a) / at_dx a \<le> ln (r_out / at_rc a) / at_dx a"
    using grid by (simp add: divide_right_mono)
  then have le: "\<lfloor>ln (r_in / at_rc a) / at_dx a\<rfloor> \<le> \<lceil>ln (r_out / at_rc a) / at_dx a\<rceil>"
    by linarith
  have Kp: "0 < K" and Gp: "0 < G" using K g by (simp_all add: K_def G_def)
  have "gridLimits a En k =
      Inr (\<lfloor>ln (r_in / at_rc a) / at_dx a\<rfloor>, \<lceil>ln (r_out / at_rc a) / at_dx a\<rceil>)"
    unfolding gridLimits_def Let_def
    unfolding K_def [symmetric] G_def [symmetric]
    unfolding r_tp_def [symmetric]
    unfolding r_out_def [symmetric] r_in_def [symmetric]
    using Kp Gp B eps grid in2 out tp by simp
  moreover have "at_rc a * exp (real_of_int \<lfloor>ln (r_in / at_rc a) / at_dx a\<rfloor> * at_dx a) \<le> r_tp"
  proof -
    define L where "L = ln (r_in / at_rc a)"
    define j where "j = real_of_int \<lfloor>L / at_dx a\<rfloor>"
    have "j \<le> L / at_dx a" unfolding j_def by (rule of_int_floor_le)
    then have "j * at_dx a \<le> L"
      by (simp only: pos_le_divide_eq [OF grid(2)])
    then have "exp (j * at_dx a) \<le> exp L" by simp
    also have "exp L = r_in / at_rc a"
      unfolding L_def using in0 grid(1) by (intro exp_ln) simp
    finally have "exp (j * at_dx a) * at_rc a \<le> r_in"
      by (simp only: pos_le_divide_eq [OF grid(1)])
    with in2 show ?thesis
      unfolding j_def L_def by (simp add: mult.commute)
  qed
  ultimately show ?thesis using le unfolding r_tp_def by blast
qed



lemma getV_ok:
  assumes "\<And>r. r \<in> set rs \<Longrightarrow> \<exists>v. at_V a r = Inr v"
  shows "\<exists>vs. getV a rs = Inr vs"
  using assms
proof (induction rs)
  case Nil
  then show ?case by simp
next
  case (Cons r rs)
  from Cons.prems obtain v where "at_V a r = Inr v" by auto
  moreover from Cons obtain vs where "getV a rs = Inr vs" by auto
  ultimately show ?case by simp
qed

lemma trialState_ok:
  assumes gl: "gridLimits a En k = Inr (i0, i1)" and le: "i0 \<le> i1"
    and grid: "0 < at_rc a" "0 < at_dx a"
    and V: "\<And>r. 0 < r \<Longrightarrow> \<exists>v. at_V a r = Inr v"
  shows "\<exists>st. trialState a En k = Inr st \<and> st_E st = En \<and> st_k st = k
           \<and> grid_indices st = (i0, i1) \<and> on_log_grid a st"
proof -
  define g where "g = map (\<lambda>i. at_rc a * exp (real_of_int i * at_dx a)) [i0 .. i1]"
  have "\<And>r. r \<in> set g \<Longrightarrow> \<exists>v. at_V a r = Inr v"
    using V grid by (auto simp: g_def)
  then obtain vs where vs: "getV a g = Inr vs" using getV_ok by blast
  show ?thesis
    using gl le grid vs
    by (simp add: trialState_def DiracState_grid_def logGrid_def Let_def g_def
        on_log_grid_def)
qed

lemma example_atom_V:
  assumes "0 < r"
  shows "\<exists>v. at_V (example_atom Z R mx) r = Inr v"
  using assms by (simp add: example_atom_def CoulombSphere_V_def)

lemma example_trialState:
  assumes lo: "18000 \<le> En" and hi: "En \<le> 18778.5"
  shows "\<exists>st. trialState (example_atom 1 R mx) En (- 1) = Inr st \<and> st_E st = En
           \<and> st_k st = - 1 \<and> on_log_grid (example_atom 1 R mx) st
           \<and> at_rc (example_atom 1 R mx)
               * exp (real_of_int (fst (grid_indices st)) * at_dx (example_atom 1 R mx)) \<le> 4"
proof -
  let ?a = "example_atom 1 R mx"
  have c2: "18778.8 < c ^ 2" "c ^ 2 < 18779"
    by (simp_all add: c_def power2_eq_square)
  have f: "at_mu ?a = 1" "at_Z ?a = 1" "restE ?a = c ^ 2" "at_rc ?a = 1" "at_dx ?a = 0.005"
    "in_eps ?a = 1 / 10 ^ 5" "out_eps ?a = 1 / 10 ^ 5"
    by (simp_all add: example_atom_def)
  have En0: "0 \<le> En" "En \<le> c ^ 2" using lo hi c2 by simp_all
  have "En * En \<le> En * c ^ 2" using En0 by (intro mult_left_mono) simp_all
  then have "(En / c) ^ 2 \<le> En"
    using c_pos by (simp add: power2_eq_square field_simps)
  then have K1: "c ^ 2 - En \<le> (1 * c) ^ 2 - (En / c) ^ 2" by simp
  have gap: "0.3 \<le> c ^ 2 - En" "c ^ 2 - En \<le> 779" using lo hi c2 by simp_all
  have K: "0 < (at_mu ?a * c) ^ 2 - (En / c) ^ 2" using K1 gap by (simp add: f)
  have g: "0 < (real_of_int (- 1)) ^ 2 - (at_Z ?a * alpha) ^ 2"
    "(real_of_int (- 1)) ^ 2 - (at_Z ?a * alpha) ^ 2 \<le> 1"
    by (simp_all add: f alpha_def power2_eq_square)
  have B: "En \<noteq> restE ?a" using gap by (simp add: f)
  have ab: "\<bar>En - restE ?a\<bar> = c ^ 2 - En" using gap by (simp add: f)
  have "(in_eps ?a * \<bar>En - restE ?a\<bar>) ^ 2 = (in_eps ?a) ^ 2 * (c ^ 2 - En) ^ 2"
    unfolding ab by (rule power_mult_distrib)
  also have "(c ^ 2 - En) ^ 2 \<le> 779 ^ 2"
    using gap by (intro power_mono) simp_all
  then have "(in_eps ?a) ^ 2 * (c ^ 2 - En) ^ 2 \<le> (in_eps ?a) ^ 2 * 779 ^ 2"
    by (intro mult_left_mono) simp_all
  also have "\<dots> \<le> 0.3" by (simp add: f power2_eq_square)
  also have "\<dots> \<le> (at_Z ?a) ^ 2 * ((at_mu ?a * c) ^ 2 - (En / c) ^ 2)"
    using K1 gap by (simp add: f)
  finally have small: "(in_eps ?a * \<bar>En - restE ?a\<bar>) ^ 2
      \<le> (at_Z ?a) ^ 2 * ((at_mu ?a * c) ^ 2 - (En / c) ^ 2)" by simp
  from gridLimits_ok [OF K g B _ _ _ _ _ _ _ small]
  obtain i0 i1 where gl: "gridLimits ?a En (- 1) = Inr (i0, i1)" and le: "i0 \<le> i1"
    and r0: "at_rc ?a * exp (real_of_int i0 * at_dx ?a) \<le> at_Z ?a / \<bar>En - restE ?a\<bar>"
    by (auto simp: f)
  have "at_Z ?a / \<bar>En - restE ?a\<bar> = 1 / (c ^ 2 - En)" unfolding ab by (simp add: f)
  also have "\<dots> \<le> 1 / 0.3" using gap by (intro divide_left_mono) simp_all
  also have "\<dots> \<le> (4::real)" by simp
  finally have tp: "at_Z ?a / \<bar>En - restE ?a\<bar> \<le> 4" .
  from trialState_ok [OF gl le _ _ example_atom_V]
  obtain st where "trialState ?a En (- 1) = Inr st" "st_E st = En" "st_k st = - 1"
    "grid_indices st = (i0, i1)" "on_log_grid ?a st"
    by (auto simp: f)
  with r0 tp show ?thesis by auto
qed

section \<open>Properties of convergeState\<close>

lemma on_log_grid_first:  assumes "on_log_grid a st"
  shows "\<exists>rs. grid st = (at_rc a * exp (real_of_int (fst (grid_indices st)) * at_dx a)) # rs"
proof -
  from assms have "fst (grid_indices st) \<le> snd (grid_indices st)"
    by (simp add: on_log_grid_def)
  then have "[fst (grid_indices st) .. snd (grid_indices st)] =
      fst (grid_indices st) # [fst (grid_indices st) + 1 .. snd (grid_indices st)]"
    by (rule upto_rec1)
  with assms show ?thesis by (simp add: on_log_grid_def)
qed

lemma trialState_on_log_grid:
  assumes "trialState a En k = Inr st"
  shows "on_log_grid a st"
  using assms
  by (auto simp: trialState_def DiracState_grid_def logGrid_def on_log_grid_def Let_def
      split: sum.splits prod.splits if_splits)

lemma stateIntegrate_grid:
  assumes "stateIntegrate x a st0 = Inr (st, tp, dE)"
  shows "grid st = grid st0" and "grid_indices st = grid_indices st0"
  using assms
  by (auto simp: stateIntegrate_def Let_def split: list.splits sum.splits prod.splits)

lemma convergeState_body_on_log_grid:
  assumes "convergeState_body x a k En = Inr r"
  shows "case r of Return (st, tp) \<Rightarrow> on_log_grid a st
                 | Continue (st, tp, En') \<Rightarrow> on_log_grid a st"
proof -
  from assms obtain st0 st tp dE where t: "trialState a En k = Inr st0"
    and s: "stateIntegrate x a st0 = Inr (st, tp, dE)"
    by (auto simp: convergeState_body_def split: sum.splits prod.splits)
  have g: "on_log_grid a st"
    using trialState_on_log_grid [OF t] stateIntegrate_grid [OF s]
    by (simp add: on_log_grid_def)
  from assms t s g show ?thesis
    by (auto simp: convergeState_body_def split: if_splits double.splits)
qed

lemma convergeState_loop_on_log_grid:
  assumes "convergeState_loop x a k n En cur = Inr (Some (st, tp))"
    and "\<And>s t. cur = Some (s, t) \<Longrightarrow> on_log_grid a s"
  shows "on_log_grid a st"
  using assms
proof (induction n arbitrary: En cur)
  case 0
  then show ?case by simp
next
  case (Suc n)
  from Suc.prems(1) obtain r where b: "convergeState_body x a k En = Inr r"
    by (auto split: sum.splits)
  note g = convergeState_body_on_log_grid [OF b]
  show ?case
  proof (cases r)
    case (Return p)
    with Suc.prems(1) b g show ?thesis by (auto split: prod.splits)
  next
    case (Continue q)
    obtain s1 t1 E1 where q: "q = (s1, t1, E1)" by (cases q) auto
    with Continue b Suc.prems(1)
    have "convergeState_loop x a k n E1 (Some (s1, t1)) = Inr (Some (st, tp))" by simp
    moreover from g Continue q have "on_log_grid a s1" by simp
    ultimately show ?thesis using Suc.IH by blast
  qed
qed

lemma continuify_grid:
  assumes "continuify tp st = Inr st'"
  shows "grid st' = grid st" and "grid_indices st' = grid_indices st"
  using assms by (auto simp: continuify_def Let_def split: if_splits)

lemma normalize_grid:
  "grid (normalize x st) = grid st" "grid_indices (normalize x st) = grid_indices st"
  by (simp_all add: normalize_def Let_def)

text \<open>
  What holds of the local \<^verbatim>\<open>state\<close> at \<^verbatim>\<open>return state;\<close>: its \<open>nodes\<close> and
  \<open>nodesQ\<close> are the node counts of its own \<^verbatim>\<open>P\<close> and \<^verbatim>\<open>Q\<close>, their difference is
  0 or 1, and it is 1 exactly when the nucleus is finite and the innermost grid point
  \<open>r[i0] = rc * exp (i0 * dx)\<close> lies inside the nuclear radius.
\<close>

lemma convergeState_local_checked:
  assumes "convergeState_local x a E0 k = Inr st"
  shows "nodes st = ext_countNodes x (st_P st)
       \<and> nodesQ st = ext_countNodes x (st_Q st)
       \<and> nodesQ st - nodes st \<in> {0, 1}
       \<and> (nodesQ st - nodes st = 1 \<longleftrightarrow>
            0 < at_R a
            \<and> at_rc a * exp (real_of_int (fst (grid_indices st)) * at_dx a) < at_R a)
       \<and> (\<exists>rs. grid st = (at_rc a * exp (real_of_int (fst (grid_indices st)) * at_dx a)) # rs)
       \<and> init st"
proof -
  from assms obtain s0 tp s1 where
    l: "convergeState_loop x a k (nat (maxit a)) E0 None = Inr (Some (s0, tp))"
    and c: "continuify tp s0 = Inr s1"
    by (auto simp: convergeState_local_def split: sum.splits option.splits prod.splits)
  have "on_log_grid a s0"
    using convergeState_loop_on_log_grid [OF l] by simp
  then have g2: "on_log_grid a (normalize x s1)"
    using continuify_grid [OF c] normalize_grid [of x s1] by (simp add: on_log_grid_def)
  define r0 where "r0 = at_rc a * exp (real_of_int (fst (grid_indices (normalize x s1))) * at_dx a)"
  from on_log_grid_first [OF g2] obtain rs where gr: "grid (normalize x s1) = r0 # rs"
    by (auto simp: r0_def)
  have pos: "0 < r0" using g2 by (simp add: r0_def on_log_grid_def)
  from assms l c gr have st: "st = (normalize x s1)
      \<lparr>nodes := ext_countNodes x (st_P (normalize x s1)),
       nodesQ := ext_countNodes x (st_Q (normalize x s1)), init := True\<rparr>"
    and d: "ext_countNodes x (st_Q (normalize x s1)) - ext_countNodes x (st_P (normalize x s1))
          = (if r0 < at_R a then 1 else 0)"
    by (auto simp: convergeState_local_def Let_def split: if_splits)
  from st have f: "fst (grid_indices st) = fst (grid_indices (normalize x s1))"
    and gs: "grid st = r0 # rs" using gr by simp_all
  from st have cnt: "nodes st = ext_countNodes x (st_P st)"
    "nodesQ st = ext_countNodes x (st_Q st)" by simp_all
  from st d have diff: "nodesQ st - nodes st = (if r0 < at_R a then 1 else 0)" by simp
  show ?thesis
    using diff pos gs st cnt unfolding f r0_def [symmetric] by auto
qed

text \<open>
  A state whose counts do not stand in that relation is not returned:
  \<^verbatim>\<open>convergeState\<close> throws, whichever way the return value is built.
\<close>

lemma convergeState_rejects:
  assumes "convergeState_loop x a k (nat (maxit a)) E0 None = Inr (Some (s0, tp))"
    and "continuify tp s0 = Inr s1"
    and "grid (normalize x s1) = r0 # rs"
    and "ext_countNodes x (st_Q (normalize x s1)) - ext_countNodes x (st_P (normalize x s1))
           \<noteq> (if r0 < at_R a then 1 else 0)"
  shows "convergeState x a E0 k = Inl (thrown_literal ''NODES WRONG'')"
  using assms by (simp add: convergeState_def convergeState_local_def Let_def)

text \<open>The two ways of \<^verbatim>\<open>return state;\<close>.\<close>

lemma convergeState_elided:
  assumes "ext_elide x"
  shows "convergeState x a E0 k = convergeState_local x a E0 k"
  using assms by (simp add: convergeState_def return_value_def split: sum.splits)

lemma convergeState_copied:
  assumes "\<not> ext_elide x" and "convergeState x a E0 k = Inr st"
  shows "\<exists>s. convergeState_local x a E0 k = Inr s \<and> st = DiracState_copy s
           \<and> nodes st = nodes s \<and> st_P st = st_P s \<and> st_Q st = st_Q s
           \<and> nodesQ st = nodesQ DiracState_default"
  using assms
  by (auto simp: convergeState_def return_value_def DiracState_copy_def split: sum.splits)

text \<open>
  With an elided return the caller's state is the checked one, so it has the relation
  between its node counts.
\<close>

lemma convergeState_elided_node_difference:
  assumes "ext_elide x" and "convergeState x a E0 k = Inr st"
  shows "nodes st = ext_countNodes x (st_P st)
       \<and> nodesQ st = ext_countNodes x (st_Q st)
       \<and> nodesQ st - nodes st \<in> {0, 1}
       \<and> (nodesQ st - nodes st = 1 \<longleftrightarrow>
            0 < at_R a
            \<and> at_rc a * exp (real_of_int (fst (grid_indices st)) * at_dx a) < at_R a)"
proof -
  from assms have "convergeState_local x a E0 k = Inr st"
    by (simp add: convergeState_elided)
  from convergeState_local_checked [OF this] show ?thesis by blast
qed






section \<open>Runs on the example inputs\<close>

lemma scale_from_one: "scale_from i N 1 xs = xs"
proof -
  have "(\<lambda>(j::nat, v::real). if i \<le> int j \<and> j < N then v * 1 else v) = snd"
    by (auto simp: fun_eq_iff)
  then show ?thesis by (simp add: scale_from_def)
qed

lemma example_stateIntegrate:
  assumes "grid st0 = r0 # rs"
  shows "stateIntegrate (example_ext corr cnt guess) a st0 =
         Inr (st0\<lparr>st_Q := map (\<lambda>r. - 1) (grid st0), st_P := map (\<lambda>r. st_E st0) (grid st0)\<rparr>,
              \<lparr>tp_i = 0, tp_Qi = 1, tp_Qe = 1, tp_Pi = 1, tp_Pe = 1\<rparr>, corr (st_E st0))"
  using assms by (simp add: stateIntegrate_def example_ext_def Let_def)

lemma example_integrateState:
  assumes "grid st0 = r0 # rs"
  shows "integrateState (example_ext corr cnt guess) a st0 =
         Inr (st0\<lparr>st_Q := map (\<lambda>r. - 1) (grid st0), st_P := map (\<lambda>r. st_E st0) (grid st0)\<rparr>,
              \<lparr>tp_i = 0, tp_Qi = 1, tp_Qe = 1, tp_Pi = 1, tp_Pe = 1\<rparr>)"
  using assms by (simp add: integrateState_def example_ext_def)

lemma example_continuify:
  "continuify \<lparr>tp_i = 0, tp_Qi = 1, tp_Qe = 1, tp_Pi = 1, tp_Pe = 1\<rparr> st = Inr st"
  by (simp add: continuify_def scale_from_one)

lemma example_normalize: "normalize (example_ext corr cnt guess) st = st"
  by (simp add: normalize_def DiracState_norm_def example_ext_def)

lemma example_convergeState_local:
  assumes En: "18000 \<le> En" "En \<le> 18778.5" and mx: "0 < mx"
    and corr: "corr En = Num 0"
    and cnt: "cnt (- 1) - cnt En = (if 4 < R then 1 else 0)"
    and R: "R \<le> 0 \<or> 4 < R"
  shows "\<exists>st. convergeState_local (example_ext corr cnt guess) (example_atom 1 R mx) En (- 1)
             = Inr st
           \<and> nodes st = cnt En \<and> nodesQ st = cnt (- 1) \<and> st_k st = - 1 \<and> st_E st = En
           \<and> init st"
proof -
  let ?x = "example_ext corr cnt guess" and ?a = "example_atom 1 R mx"
  let ?tp = "\<lparr>tp_i = 0, tp_Qi = 1, tp_Qe = 1, tp_Pi = 1, tp_Pe = 1\<rparr>"
  from example_trialState [OF En, of R mx]
  obtain st0 where t: "trialState ?a En (- 1) = Inr st0" and e: "st_E st0 = En"
    and k: "st_k st0 = - 1" and g: "on_log_grid ?a st0"
    and r: "at_rc ?a * exp (real_of_int (fst (grid_indices st0)) * at_dx ?a) \<le> 4"
    by blast
  define r0 where "r0 = at_rc ?a * exp (real_of_int (fst (grid_indices st0)) * at_dx ?a)"
  from on_log_grid_first [OF g] obtain rs where gr: "grid st0 = r0 # rs"
    by (auto simp: r0_def)
  have r0: "0 < r0" "r0 \<le> 4" using g r by (simp_all add: r0_def on_log_grid_def)
  define st1 where "st1 = st0\<lparr>st_Q := map (\<lambda>r. - 1) (grid st0), st_P := map (\<lambda>r. En) (grid st0)\<rparr>"
  have s: "stateIntegrate ?x ?a st0 = Inr (st1, ?tp, Num 0)"
    using example_stateIntegrate [OF gr, of corr cnt guess ?a] e corr by (simp add: st1_def)
  have tol: "0 < Etol ?a" by (simp add: example_atom_def)
  have b: "convergeState_body ?x ?a (- 1) En = Inr (Return (st1, ?tp))"
    using t s tol by (simp add: convergeState_body_def isnan_def dabs_less_def)
  obtain m where m: "nat (maxit ?a) = Suc m"
    using mx by (cases "nat mx") (simp_all add: example_atom_def)
  have l: "convergeState_loop ?x ?a (- 1) (nat (maxit ?a)) En None = Inr (Some (st1, ?tp))"
    unfolding m using b by simp
  have cP: "ext_countNodes ?x (st_P st1) = cnt En"
    and cQ: "ext_countNodes ?x (st_Q st1) = cnt (- 1)"
    using gr by (simp_all add: st1_def example_ext_def)
  have g1: "grid st1 = r0 # rs" using gr by (simp add: st1_def)
  have inside: "(r0 < at_R ?a) = (4 < R)"
    using r0 R by (auto simp: example_atom_def)
  have "convergeState_local ?x ?a En (- 1) =
      Inr (st1\<lparr>nodes := cnt En, nodesQ := cnt (- 1), init := True\<rparr>)"
    using l cnt g1 cP cQ inside
    by (simp add: convergeState_local_def example_continuify example_normalize Let_def)
  then show ?thesis using e k by (simp add: st1_def)
qed

lemma example_convergeState:
  assumes En: "18000 \<le> En" "En \<le> 18778.5" and mx: "0 < mx"
    and corr: "corr En = Num 0"
    and cnt: "cnt (- 1) - cnt En = (if 4 < R then 1 else 0)"
    and R: "R \<le> 0 \<or> 4 < R"
  shows "\<exists>st. convergeState (example_ext corr cnt guess) (example_atom 1 R mx) En (- 1) = Inr st
           \<and> nodes st = cnt En \<and> nodesQ st = cnt (- 1) \<and> st_k st = - 1 \<and> st_E st = En
           \<and> init st"
proof -
  have el: "ext_elide (example_ext corr cnt guess)" by (simp add: example_ext_def)
  show ?thesis
    unfolding convergeState_elided [OF el]
    using assms by (rule example_convergeState_local [of En mx corr cnt R guess])
qed

lemma example_convergeState_finite_nucleus:
  "\<exists>st. convergeState (example_ext (\<lambda>e. Num 0) (\<lambda>v. if v = - 1 then 3 else 2) 18778)
          (example_atom 1 5 100) 18778 (- 1) = Inr st
      \<and> nodesQ st - nodes st = 1
      \<and> at_rc (example_atom 1 5 100)
            * exp (real_of_int (fst (grid_indices st)) * at_dx (example_atom 1 5 100))
          < at_R (example_atom 1 5 100)"
proof -
  let ?x = "example_ext (\<lambda>e. Num 0) (\<lambda>v. if v = - 1 then 3 else 2) 18778"
  from example_convergeState [of 18778 100 "\<lambda>e. Num 0" "\<lambda>v. if v = - 1 then 3 else 2" 5 18778]
  obtain st where st: "convergeState ?x (example_atom 1 5 100) 18778 (- 1) = Inr st"
    and n: "nodes st = 2" "nodesQ st = 3"
    by auto
  have el: "ext_elide ?x" by (simp add: example_ext_def)
  from convergeState_elided_node_difference [OF el st] st n
  show ?thesis by auto
qed



section \<open>Properties of the cache\<close>

lemma map_of_states_put:
  "map_of (states_put key v m) key' = (if key' = key then Some v else map_of m key')"
  by (induction m) auto

lemma calcState_loop_keeps_key:
  assumes "calcState_loop x a n l s k dnode i E0 st m = (Inl e, m')"
  shows "map_of m' (n, l, s) = map_of m (n, l, s)"
  using assms
proof (induction i arbitrary: E0 st m)
  case 0
  then show ?case by simp
next
  case (Suc i)
  show ?case
  proof (cases "convergeState_guess x a E0 k")
    case (Inl e')
    with Suc.prems show ?thesis by simp
  next
    case (Inr st')
    with Suc.prems have ne: "getn st' \<noteq> n"
      and rec: "calcState_loop x a n l s k dnode i (rescale_guess a dnode E0) st'
                  (states_put (getn st', l, s) st' m) = (Inl e, m')"
      by (auto split: if_splits)
    from Suc.IH [OF rec] ne show ?thesis by (simp add: map_of_states_put)
  qed
qed

lemma calcState_inserts:
  assumes absent: "map_of (states a) (n, l, s) = None"
    and call: "calcState x a n l s False dnode = (r, a')"
  shows "map_of (states a') (n, l, s) \<noteq> None"
    and "\<And>e. r = Inl e \<Longrightarrow> map_of (states a') (n, l, s) = Some DiracState_default"
proof -
  define m1 where "m1 = states_put (n, l, s) DiracState_default (states a)"
  have sub: "states_subscript (n, l, s) (states a) = (DiracState_default, m1)"
    using absent by (simp add: states_subscript_def m1_def)
  have m1: "map_of m1 (n, l, s) = Some DiracState_default"
    by (simp add: m1_def map_of_states_put)
  have ni: "\<not> init DiracState_default" by (simp add: DiracState_default_def)
  let ?k = "if s \<and> 0 < l then l else - l - 1"
  let ?g = "raise_guess a (ext_hydrogenic x (at_Z a) (at_mu a) n ?k)"
  have both: "map_of (states a') (n, l, s) \<noteq> None
      \<and> (\<forall>e. r = Inl e \<longrightarrow> map_of (states a') (n, l, s) = Some DiracState_default)"
  proof (cases ?g)
    case (Inl e)
    with call sub ni m1 show ?thesis by (auto simp: calcState_def Let_def)
  next
    case (Inr E0)
    obtain res m2 where lp: "calcState_loop x a n l s ?k dnode (nat (maxit a)) E0
        DiracState_default m1 = (res, m2)" by (cases "calcState_loop x a n l s ?k dnode (nat (maxit a)) E0
        DiracState_default m1") auto
    show ?thesis
    proof (cases res)
      case (Inl e)
      from calcState_loop_keeps_key [OF lp [unfolded Inl]] m1
      have "map_of m2 (n, l, s) = Some DiracState_default" by simp
      with call sub ni Inr lp Inl show ?thesis by (auto simp: calcState_def Let_def)
    next
      case (Inr st)
      with call sub ni \<open>?g = Inr E0\<close> lp show ?thesis
        by (auto simp: calcState_def Let_def map_of_states_put)
    qed
  qed
  from both show "map_of (states a') (n, l, s) \<noteq> None" by simp
  from both show "\<And>e. r = Inl e \<Longrightarrow> map_of (states a') (n, l, s) = Some DiracState_default"
    by simp
qed

lemma getState_failure_is_calcState_failure:
  assumes "getState x a n l s dnode = (Inl e, a')"
  shows "calcState x a n l s False dnode = (Inl e, a')"
proof (cases "calcState x a n l s False dnode")
  case (Pair r a1)
  show ?thesis
  proof (cases r)
    case (Inl e1)
    with Pair assms show ?thesis by (simp add: getState_def)
  next
    case (Inr u)
    with Pair assms show ?thesis
      by (simp add: getState_def Let_def DiracState_copy_def split: prod.splits)
  qed
qed

lemma dmax_keeps_floor:
  assumes "\<not> dless lo (Num e)"
  shows "\<not> dless (dmax lo (Num e')) (Num e)"
  using assms by (cases lo) (auto simp: dmax_def dless_def)

lemma dmax_floor: "\<not> dless (dmax lo (Num e)) (Num e)"
  by (cases lo) (auto simp: dmax_def dless_def)

lemma energyLimits_scan_mono:
  assumes "fold (energyLimits_scan nt l s) m (lo, hi) = (lo', hi')"
  shows "(\<not> dless lo (Num e) \<longrightarrow> \<not> dless lo' (Num e)) \<and> hi' \<le> hi"
  using assms
proof (induction m arbitrary: lo hi)
  case Nil
  then show ?case by simp
next
  case (Cons entry m)
  obtain itn itl its st where entry: "entry = ((itn, itl, its), st)" by (cases entry) auto
  obtain lo1 hi1 where step: "energyLimits_scan nt l s entry (lo, hi) = (lo1, hi1)"
    by (cases "energyLimits_scan nt l s entry (lo, hi)") auto
  have one: "(\<not> dless lo (Num e) \<longrightarrow> \<not> dless lo1 (Num e)) \<and> hi1 \<le> hi"
    using step entry dmax_keeps_floor by (auto split: if_splits)
  from Cons.prems step have "fold (energyLimits_scan nt l s) m (lo1, hi1) = (lo', hi')"
    by simp
  from Cons.IH [OF this] one show ?case by auto
qed

lemma energyLimits_scan_sees_entry:
  assumes entry: "((n, l, s), st) \<in> set m"
    and run: "fold (energyLimits_scan nt l s) m (lo, hi) = (lo', hi')"
  shows "(n \<le> nt \<longrightarrow> \<not> dless lo' (Num (st_E st))) \<and> (nt < n \<longrightarrow> hi' \<le> st_E st)"
proof -
  from entry obtain xs ys where m: "m = xs @ ((n, l, s), st) # ys"
    by (auto dest: split_list)
  obtain lo1 hi1 where a1: "fold (energyLimits_scan nt l s) xs (lo, hi) = (lo1, hi1)"
    by (cases "fold (energyLimits_scan nt l s) xs (lo, hi)") auto
  obtain lo2 hi2 where a2: "energyLimits_scan nt l s ((n, l, s), st) (lo1, hi1) = (lo2, hi2)"
    by (cases "energyLimits_scan nt l s ((n, l, s), st) (lo1, hi1)") auto
  from run m a1 a2 have a3: "fold (energyLimits_scan nt l s) ys (lo2, hi2) = (lo', hi')"
    by simp
  from a2 have here: "(n \<le> nt \<longrightarrow> \<not> dless lo2 (Num (st_E st))) \<and> (nt < n \<longrightarrow> hi2 \<le> st_E st)"
    using dmax_floor by (auto split: if_splits)
  from energyLimits_scan_mono [OF a3, of "st_E st"] here show ?thesis by auto
qed

text \<open>
  Claim C9. The presence test of \<^verbatim>\<open>calcState\<close> reads \<^verbatim>\<open>states[key]\<close>, which inserts
  a default state (\<open>E = 0\<close>, \<open>init = false\<close>) under an absent key. So every call with
  \<open>force = false\<close> leaves the key present; and a \<^verbatim>\<open>getState\<close> that fails leaves that
  default entry behind, where \<^verbatim>\<open>energyLimits\<close> meets it on its scan: for the same
  \<open>l\<close> and \<open>s\<close> the entry's energy 0 enters the lower bound of every target with
  principal number at least \<open>n\<close>, and the upper bound of every target below \<open>n\<close>.
\<close>

theorem getState_mutates_cache:
  assumes absent: "map_of (states a) (n, l, s) = None"
  shows "(\<forall>r a'. calcState x a n l s False dnode = (r, a')
            \<longrightarrow> map_of (states a') (n, l, s) \<noteq> None)
       \<and> (\<forall>e a'. getState x a n l s dnode = (Inl e, a')
            \<longrightarrow> map_of (states a') (n, l, s) = Some DiracState_default
                \<and> \<not> init DiracState_default \<and> st_E DiracState_default = 0
                \<and> (\<forall>nodes_target k lo hi.
                      qnumDirac2Schro k = (l, s)
                      \<longrightarrow> energyLimits a' nodes_target k = Inr (lo, hi)
                      \<longrightarrow> (n \<le> qnumNodes2Principal nodes_target l \<longrightarrow> \<not> dless lo (Num 0))
                          \<and> (qnumNodes2Principal nodes_target l < n \<longrightarrow> hi \<le> 0)))"
proof (intro conjI allI impI)
  fix r a'
  assume "calcState x a n l s False dnode = (r, a')"
  from calcState_inserts(1) [OF absent this]
  show "map_of (states a') (n, l, s) \<noteq> None" .
next
  fix e a'
  assume "getState x a n l s dnode = (Inl e, a')"
  from calcState_inserts(2) [OF absent getState_failure_is_calcState_failure [OF this]]
  show "map_of (states a') (n, l, s) = Some DiracState_default" by simp
next
  show "\<not> init DiracState_default" by (simp add: DiracState_default_def)
  show "st_E DiracState_default = 0" by (simp add: DiracState_default_def)
next
  fix e a' nodes_target k lo hi
  assume g: "getState x a n l s dnode = (Inl e, a')"
    and k: "qnumDirac2Schro k = (l, s)"
    and el: "energyLimits a' nodes_target k = Inr (lo, hi)"
  from calcState_inserts(2) [OF absent getState_failure_is_calcState_failure [OF g]]
  have "map_of (states a') (n, l, s) = Some DiracState_default" by simp
  then have mem: "((n, l, s), DiracState_default) \<in> set (states a')"
    by (rule map_of_SomeD)
  from el k obtain lo0 where
    "fold (energyLimits_scan (qnumNodes2Principal nodes_target l) l s) (states a')
       (lo0, restE a') = (lo, hi)"
    by (auto simp: energyLimits_def Let_def split: sum.splits)
  from energyLimits_scan_sees_entry [OF mem this]
  have r: "(n \<le> qnumNodes2Principal nodes_target l \<longrightarrow> \<not> dless lo (Num 0))
      \<and> (qnumNodes2Principal nodes_target l < n \<longrightarrow> hi \<le> 0)"
    by (simp add: DiracState_default_def)
  from r show "n \<le> qnumNodes2Principal nodes_target l \<Longrightarrow> \<not> dless lo (Num 0)" by simp
  from r show "qnumNodes2Principal nodes_target l < n \<Longrightarrow> hi \<le> 0" by simp
qed

lemma example_convergeState_unbound:
  assumes "0 < mx" and "19000 \<le> En"
  shows "convergeState x (example_atom Z R mx) En k = Inl (atom_error UNBOUND_STATE)"
proof -
  let ?a = "example_atom Z R mx"
  obtain m where m: "nat (maxit ?a) = Suc m"
    using assms(1) by (cases "nat mx") (simp_all add: example_atom_def)
  have c2: "c ^ 2 < 19000" by (simp add: c_def power2_eq_square)
  have "c * c < En" using c2 assms(2) by (simp add: power2_eq_square)
  then have "c < En / c" using c_pos by (simp add: field_simps)
  then have "c ^ 2 < (En / c) ^ 2" using c_pos by (intro power_strict_mono) simp_all
  then have "gridLimits ?a En k = Inl (atom_error UNBOUND_STATE)"
    by (simp add: gridLimits_unbound_iff example_atom_def)
  then have "convergeState_body x ?a k En = Inl (atom_error UNBOUND_STATE)"
    by (simp add: convergeState_body_def trialState_def)
  then show ?thesis unfolding convergeState_def convergeState_local_def m by simp
qed

lemma example_getState_unbound:
  "getState (example_ext corr cnt 40000) (example_atom 1 (- 1) 100) 2 0 False dn =
     (Inl (atom_error UNBOUND_STATE),
      (example_atom 1 (- 1) 100)\<lparr>states := [((2, 0, False), DiracState_default)]\<rparr>)"
proof -
  let ?x = "example_ext corr cnt 40000" and ?a = "example_atom 1 (- 1) 100"
  obtain m where m: "nat (maxit ?a) = Suc m"
    by (cases "nat 100") (simp_all add: example_atom_def)
  have g: "raise_guess ?a (ext_hydrogenic ?x (at_Z ?a) (at_mu ?a) 2 (- 1)) = Inr (Num 40000)"
    by (simp add: raise_guess_def example_atom_def example_ext_def)
  have cs: "convergeState_guess ?x ?a (Num 40000) (- 1) = Inl (atom_error UNBOUND_STATE)"
    using example_convergeState_unbound [of 100 40000 ?x 1 "- 1" "- 1"]
    by (simp add: convergeState_guess_def)
  have sub: "states_subscript (2, 0, False) (states ?a) =
      (DiracState_default, [((2, 0, False), DiracState_default)])"
    by (simp add: states_subscript_def example_atom_def)
  have "calcState ?x ?a 2 0 False False dn =
      (Inl (atom_error UNBOUND_STATE), ?a\<lparr>states := [((2, 0, False), DiracState_default)]\<rparr>)"
    using g cs sub unfolding calcState_def m
    by (simp add: Let_def DiracState_default_def)
  then show ?thesis by (simp add: getState_def)
qed

theorem getState_mutates_cache_witness:
  "map_of (states (example_atom 1 (- 1) 100)) (2, 0, False) = None
   \<and> (\<exists>a'. getState (example_ext (\<lambda>e. Num 0) (\<lambda>v. 0) 40000) (example_atom 1 (- 1) 100)
              2 0 False 0 = (Inl (atom_error UNBOUND_STATE), a')
          \<and> map_of (states a') (2, 0, False) = Some DiracState_default
          \<and> qnumDirac2Schro (- 1) = (0, False)
          \<and> qnumNodes2Principal 0 0 < 2
          \<and> (\<exists>lo hi. energyLimits a' 0 (- 1) = Inr (lo, hi) \<and> hi \<le> 0))"
proof -
  let ?x = "example_ext (\<lambda>e. Num 0) (\<lambda>v. 0) 40000" and ?a = "example_atom 1 (- 1) 100"
  let ?a' = "?a\<lparr>states := [((2, 0, False), DiracState_default)]\<rparr>"
  have absent: "map_of (states ?a) (2, 0, False) = None" by (simp add: example_atom_def)
  have g: "getState ?x ?a 2 0 False 0 = (Inl (atom_error UNBOUND_STATE), ?a')"
    by (rule example_getState_unbound)
  have k: "qnumDirac2Schro (- 1) = (0, False)" by (simp add: qnumDirac2Schro_def)
  have n: "qnumNodes2Principal 0 0 < 2" by (simp add: qnumNodes2Principal_def)
  have el: "energyLimits ?a' 0 (- 1) = Inr (Num (- (c ^ 2)), 0)"
    by (simp add: energyLimits_def qnumDirac2Schro_def qnumNodes2Principal_def
        example_atom_def CoulombSphere_V_def CoulombSpherePotential_def ddiv_def dadd_def
        dmax_def dless_def DiracState_default_def)
  from getState_mutates_cache [OF absent, of ?x 0] g k n el
  have "map_of (states ?a') (2, 0, False) = Some DiracState_default \<and> (0::real) \<le> 0"
    by blast
  with absent g k n el show ?thesis by auto
qed

section \<open>The search of calcState runs out of iterations\<close>

text \<open>
  With a budget of one iteration and the key absent: when the one \<^verbatim>\<open>convergeState\<close>
  call returns a state of another principal number, \<^verbatim>\<open>getState\<close> returns that state
  and the cache holds it under the requested key.
\<close>

lemma getState_single_iteration:
  assumes mx: "maxit a = 1"
    and absent: "map_of (states a) (n, l, s) = None"
    and guess: "raise_guess a (ext_hydrogenic x (at_Z a) (at_mu a) n
                  (if s \<and> 0 < l then l else - l - 1)) = Inr E0"
    and conv: "convergeState_guess x a E0 (if s \<and> 0 < l then l else - l - 1) = Inr st"
    and off: "getn st \<noteq> n"
  shows "\<exists>a'. getState x a n l s dnode = (Inr (DiracState_copy (DiracState_copy st)), a')
           \<and> map_of (states a') (n, l, s) = Some st"
proof -
  define m1 where "m1 = states_put (n, l, s) DiracState_default (states a)"
  define m2 where "m2 = states_put (n, l, s) st (states_put (getn st, l, s) st m1)"
  have sub: "states_subscript (n, l, s) (states a) = (DiracState_default, m1)"
    using absent by (simp add: states_subscript_def m1_def)
  have ni: "\<not> init DiracState_default" by (simp add: DiracState_default_def)
  have fuel: "nat (maxit a) = Suc 0" using mx by simp
  have look: "map_of m2 (n, l, s) = Some st" by (simp add: m2_def map_of_states_put)
  have "calcState x a n l s False dnode = (Inr (), a\<lparr>states := m2\<rparr>)"
    unfolding calcState_def fuel using sub ni guess conv off
    by (simp add: Let_def m2_def)
  then have "getState x a n l s dnode =
      (Inr (DiracState_copy (DiracState_copy st)), a\<lparr>states := m2\<rparr>)"
    using look by (simp add: getState_def states_subscript_def Let_def DiracState_copy_def)
  with look show ?thesis by simp
qed

text \<open>
  Claim C1 asks that \<^verbatim>\<open>getState(n, l, s)\<close> never returns, nor stores under
  \<open>(n, l, s)\<close>, a state with another principal number. Take a budget of one iteration
  and a request for \<open>(2, 0, false)\<close> whose single \<^verbatim>\<open>convergeState\<close> call ends in a
  state without nodes in \<open>P\<close>, that is with principal number 1. \<^verbatim>\<open>calcState\<close>
  stores that state under \<open>(1, 0, false)\<close>, leaves the loop, and stores it under
  \<open>(2, 0, false)\<close> as well; \<^verbatim>\<open>getState\<close> returns it, since every state that went
  through the copy constructor has \<^verbatim>\<open>init\<close> set.
\<close>

theorem getState_returns_off_target_state:
  "\<exists>st a' v.
      getState (example_ext (\<lambda>e. Num 0) (\<lambda>v. 0) 18778) (example_atom 1 (- 1) 1) 2 0 False 0
        = (Inr st, a')
      \<and> getn st = 1
      \<and> map_of (states a') (2, 0, False) = Some v \<and> getn v = 1"
proof -
  let ?x = "example_ext (\<lambda>e. Num 0) (\<lambda>v. 0) 18778" and ?a = "example_atom 1 (- 1) 1"
  from example_convergeState [of 18778 1 "\<lambda>e. Num 0" "\<lambda>v. 0" "- 1" 18778]
  obtain st where cs: "convergeState ?x ?a 18778 (- 1) = Inr st"
    and st: "nodes st = 0" "st_k st = - 1" "init st"
    by auto
  have n1: "getn st = 1"
    using st by (simp add: getn_def getl_def qnumDirac2Schro_def qnumNodes2Principal_def)
  have nc: "getn (DiracState_copy (DiracState_copy st)) = 1"
    using st
    by (simp add: getn_def getl_def qnumDirac2Schro_def qnumNodes2Principal_def
        DiracState_copy_def)
  have g: "raise_guess ?a (ext_hydrogenic ?x (at_Z ?a) (at_mu ?a) 2 (- 1)) = Inr (Num 18778)"
    by (simp add: raise_guess_def example_atom_def example_ext_def)
  have cg: "convergeState_guess ?x ?a (Num 18778) (- 1) = Inr st"
    using cs by (simp add: convergeState_guess_def)
  have sub: "states_subscript (2, 0, False) (states ?a) =
      (DiracState_default, [((2, 0, False), DiracState_default)])"
    by (simp add: states_subscript_def example_atom_def)
  have mx: "nat (maxit ?a) = Suc 0" by (simp add: example_atom_def)
  let ?m = "[((1, 0, False), st), ((2, 0, False), st)]"
  have "calcState ?x ?a 2 0 False False 0 = (Inr (), ?a\<lparr>states := ?m\<rparr>)"
    using g cg sub n1 unfolding calcState_def mx
    by (simp add: Let_def DiracState_default_def)
  then have "getState ?x ?a 2 0 False 0 =
      (Inr (DiracState_copy (DiracState_copy st)), ?a\<lparr>states := ?m\<rparr>)"
    by (simp add: getState_def states_subscript_def Let_def DiracState_copy_def)
  with nc n1 show ?thesis by simp
qed

section \<open>Properties of convergeE\<close>

lemma clamp_dE_spec:
  assumes "En \<noteq> 0" and "d \<noteq> 0 \<or> 0 \<le> max_dE_ratio a"
  shows "clamp_dE a En (Num d) = Num (clamp_spec (max_dE_ratio a) En d)"
  using assms
  by (auto simp: clamp_dE_def clamp_spec_def ratio_exceeded_def dpositive_def sgn_if)

text \<open>
  Claim C5. An iteration of \<^verbatim>\<open>convergeE\<close> at energy \<open>E \<noteq> 0\<close> whose correction \<open>dE\<close>
  is a number and does not meet the tolerance goes on at \<open>E - Edamp * clamp(dE)\<close>,
  with the clamp as the specification words it. The code takes the sign of \<open>dE = 0\<close>
  as \<open>- 1\<close>, which shows only with a negative step ratio, so that case asks for a
  ratio that is not negative. An iteration with \<open>|dE| < Etol\<close> ends the loop at once
  and returns the state with energy \<open>E - dE\<close>.
\<close>

theorem convergeE_energy_update:
  assumes t: "trialState a En k = Inr st0"
    and s: "integrateState_dE x a st0 = Inr (st, tp, Num d)"
    and En: "En \<noteq> 0"
  shows "(\<not> \<bar>d\<bar> < Etol a \<and> (d \<noteq> 0 \<or> 0 \<le> max_dE_ratio a) \<longrightarrow>
            convergeE_loop x a k (Suc n) En cur =
            convergeE_loop x a k n (En - Edamp a * clamp_spec (max_dE_ratio a) En d) (st, tp))
       \<and> (\<bar>d\<bar> < Etol a \<and> 0 \<le> tp_i tp \<longrightarrow>
            (\<exists>st'. convergeE_loop x a k (Suc n) En cur = Inr (st', tp) \<and> st_E st' = En - d))"
proof (intro conjI impI)
  assume h: "\<not> \<bar>d\<bar> < Etol a \<and> (d \<noteq> 0 \<or> 0 \<le> max_dE_ratio a)"
  then have "clamp_dE a En (Num d) = Num (clamp_spec (max_dE_ratio a) En d)"
    using clamp_dE_spec [OF En, of d a] by blast
  then have "damped_step a En (Num d) = Num (En - Edamp a * clamp_spec (max_dE_ratio a) En d)"
    by (simp add: damped_step_def mult.commute)
  with h t s have "convergeE_body x a k En =
      Inr (Continue (st, tp, En - Edamp a * clamp_spec (max_dE_ratio a) En d))"
    by (simp add: convergeE_body_def isnan_def dabs_less_def)
  then show "convergeE_loop x a k (Suc n) En cur =
      convergeE_loop x a k n (En - Edamp a * clamp_spec (max_dE_ratio a) En d) (st, tp)"
    by simp
next
  assume h: "\<bar>d\<bar> < Etol a \<and> 0 \<le> tp_i tp"
  then obtain st1 where c: "continuify tp (st\<lparr>st_E := En - d\<rparr>) = Inr st1"
    and e: "st_E st1 = En - d"
    by (simp add: continuify_def Let_def)
  with h t s have "convergeE_body x a k En = Inr (Return (findNodes x st1, tp))"
    by (simp add: convergeE_body_def isnan_def dabs_less_def dval_def)
  then have "convergeE_loop x a k (Suc n) En cur = Inr (findNodes x st1, tp)" by simp
  moreover have "st_E (findNodes x st1) = En - d" using e by (simp add: findNodes_def)
  ultimately show "\<exists>st'. convergeE_loop x a k (Suc n) En cur = Inr (st', tp) \<and> st_E st' = En - d"
    by blast
qed

text \<open>
  What \<^verbatim>\<open>convergeE\<close> does with a correction that is not a finite number: NaN throws,
  an infinite correction is clamped and the loop goes on.
\<close>

lemma convergeE_nan:
  assumes "trialState a En k = Inr st0"
    and "integrateState_dE x a st0 = Inr (st, tp, NaN)"
  shows "convergeE_loop x a k (Suc n) En cur =
         Inl (runtime_error ''Invalid dE value returned by integrateState'')"
  using assms by (simp add: convergeE_body_def isnan_def)

lemma convergeE_infinite_dE:
  assumes "trialState a En k = Inr st0"
    and "integrateState_dE x a st0 = Inr (st, tp, PInf)"
  shows "convergeE_loop x a k (Suc n) En cur =
         convergeE_loop x a k n (En - \<bar>En\<bar> * max_dE_ratio a * Edamp a) (st, tp)"
  using assms
  by (simp add: convergeE_body_def isnan_def dabs_less_def damped_step_def clamp_dE_def
      ratio_exceeded_def dpositive_def)

lemma convergeE_negative_infinite_dE:
  assumes "trialState a En k = Inr st0"
    and "integrateState_dE x a st0 = Inr (st, tp, NInf)"
  shows "convergeE_loop x a k (Suc n) En cur =
         convergeE_loop x a k n (En + \<bar>En\<bar> * max_dE_ratio a * Edamp a) (st, tp)"
  using assms
  by (simp add: convergeE_body_def isnan_def dabs_less_def damped_step_def clamp_dE_def
      ratio_exceeded_def dpositive_def)

text \<open>Without iterations \<^verbatim>\<open>convergeE\<close> returns at once, its arguments untouched.\<close>

lemma convergeE_no_budget:
  assumes "maxit a \<le> 0"
  shows "convergeE x a st tp = Inr (st, tp)"
  using assms by (simp add: convergeE_def)

lemma example_trial_integrated:
  assumes En: "18000 \<le> En" "En \<le> 18778.5"
  shows "\<exists>st0 st. trialState (example_atom 1 R mx) En (- 1) = Inr st0
           \<and> integrateState_dE (example_ext corr cnt guess) (example_atom 1 R mx) st0 =
               Inr (st, \<lparr>tp_i = 0, tp_Qi = 1, tp_Qe = 1, tp_Pi = 1, tp_Pe = 1\<rparr>, corr En)
           \<and> st_E st = En \<and> nodes st = 0 \<and> (\<exists>rs. st_P st = En # rs)"
proof -
  let ?a = "example_atom 1 R mx"
  from example_trialState [OF En, of R mx]
  obtain st0 where t: "trialState ?a En (- 1) = Inr st0" and e: "st_E st0 = En"
    and g: "on_log_grid ?a st0" by blast
  from on_log_grid_first [OF g] obtain r0 rs where gr: "grid st0 = r0 # rs" by blast
  have n0: "nodes st0 = 0"
    using t by (auto simp: trialState_def DiracState_grid_def DiracState_default_def Let_def
        split: sum.splits prod.splits if_splits)
  show ?thesis
    using t e n0 gr example_integrateState [OF gr, of corr cnt guess ?a]
    by (simp add: integrateState_dE_def example_ext_def)
qed

text \<open>
  Claim C3 asks that \<^verbatim>\<open>convergeE\<close> fails when its budget is used up without
  \<open>|dE| < Etol\<close>. With a budget of two iterations and an integrator whose correction
  is 1 at every energy, the loop runs twice (at 18778 and at 18777.5) and the function
  returns normally; the state it hands back is the trial state of the second iteration,
  whose correction is still 1.
\<close>

theorem convergeE_returns_unconverged:
  "\<exists>st tp.
      convergeE (example_ext (\<lambda>e. Num 1) (\<lambda>v. 0) 18778) (example_atom 1 (- 1) 2)
        (DiracState_default\<lparr>st_k := - 1, st_E := 18778\<rparr>)
        \<lparr>tp_i = 0, tp_Qi = 0, tp_Qe = 0, tp_Pi = 0, tp_Pe = 0\<rparr> = Inr (st, tp)
      \<and> st_E st = 18777.5
      \<and> ext_dE (example_ext (\<lambda>e. Num 1) (\<lambda>v. 0) 18778) 1 0.005 st tp = Num 1
      \<and> \<not> dabs_less (Num 1) (Etol (example_atom 1 (- 1) 2))"
proof -
  let ?x = "example_ext (\<lambda>e. Num 1) (\<lambda>v. 0) 18778" and ?a = "example_atom 1 (- 1) 2"
  let ?tp = "\<lparr>tp_i = 0, tp_Qi = 1, tp_Qe = 1, tp_Pi = 1, tp_Pe = 1\<rparr>"
  have tol: "Etol ?a = 1 / 10 ^ 7" "max_dE_ratio ?a = 0.1" "Edamp ?a = 0.5"
    by (simp_all add: example_atom_def)
  from example_trial_integrated [of 18778 "- 1" 2 "\<lambda>e. Num 1" "\<lambda>v. 0" 18778]
  obtain s0 s1 where t1: "trialState ?a 18778 (- 1) = Inr s0"
    and i1: "integrateState_dE ?x ?a s0 = Inr (s1, ?tp, Num 1)" by auto
  have b1: "convergeE_body ?x ?a (- 1) 18778 = Inr (Continue (s1, ?tp, 18777.5))"
    using t1 i1
    by (simp add: convergeE_body_def isnan_def dabs_less_def damped_step_def clamp_dE_def
        ratio_exceeded_def tol)
  from example_trial_integrated [of "18777.5" "- 1" 2 "\<lambda>e. Num 1" "\<lambda>v. 0" 18778]
  obtain s2 s3 where t2: "trialState ?a 18777.5 (- 1) = Inr s2"
    and i2: "integrateState_dE ?x ?a s2 = Inr (s3, ?tp, Num 1)"
    and e3: "st_E s3 = 18777.5" by auto
  have b2: "convergeE_body ?x ?a (- 1) 18777.5 = Inr (Continue (s3, ?tp, 18777))"
    using t2 i2
    by (simp add: convergeE_body_def isnan_def dabs_less_def damped_step_def clamp_dE_def
        ratio_exceeded_def tol)
  have mx: "nat (maxit ?a) = Suc (Suc 0)" by (simp add: example_atom_def)
  have "convergeE ?x ?a (DiracState_default\<lparr>st_k := - 1, st_E := 18778\<rparr>)
        \<lparr>tp_i = 0, tp_Qi = 0, tp_Qe = 0, tp_Pi = 0, tp_Pe = 0\<rparr> = Inr (s3, ?tp)"
    unfolding convergeE_def mx using b1 b2 by simp
  moreover have "ext_dE ?x 1 0.005 s3 ?tp = Num 1" by (simp add: example_ext_def)
  moreover have "\<not> dabs_less (Num 1) (Etol ?a)" by (simp add: dabs_less_def tol)
  ultimately show ?thesis using e3 by blast
qed

theorem convergeE_energy_update_witness:
  "(\<exists>st tp. convergeE_loop (example_ext (\<lambda>e. Num 5000) (\<lambda>v. 0) 18778)
               (example_atom 1 (- 1) 100) (- 1) (Suc 0) 18778
               (DiracState_default, \<lparr>tp_i = 0, tp_Qi = 0, tp_Qe = 0, tp_Pi = 0, tp_Pe = 0\<rparr>)
             = convergeE_loop (example_ext (\<lambda>e. Num 5000) (\<lambda>v. 0) 18778)
               (example_atom 1 (- 1) 100) (- 1) 0 (18778 - 0.5 * 1877.8) (st, tp))
   \<and> (\<exists>st tp. convergeE_loop (example_ext (\<lambda>e. Num 0) (\<lambda>v. 0) 18778)
               (example_atom 1 (- 1) 100) (- 1) (Suc 0) 18778
               (DiracState_default, \<lparr>tp_i = 0, tp_Qi = 0, tp_Qe = 0, tp_Pi = 0, tp_Pe = 0\<rparr>)
             = Inr (st, tp) \<and> st_E st = 18778)"
proof (intro conjI)
  let ?a = "example_atom 1 (- 1) 100"
  let ?cur = "(DiracState_default, \<lparr>tp_i = 0, tp_Qi = 0, tp_Qe = 0, tp_Pi = 0, tp_Pe = 0\<rparr>)"
  let ?tp = "\<lparr>tp_i = 0, tp_Qi = 1, tp_Qe = 1, tp_Pi = 1, tp_Pe = 1\<rparr>"
  have tol: "Etol ?a = 1 / 10 ^ 7" "max_dE_ratio ?a = 0.1" "Edamp ?a = 0.5"
    by (simp_all add: example_atom_def)
  have cl: "clamp_spec 0.1 18778 5000 = 1877.8" by (simp add: clamp_spec_def)
  let ?x = "example_ext (\<lambda>e. Num 5000) (\<lambda>v. 0) 18778"
  from example_trial_integrated [of 18778 "- 1" 100 "\<lambda>e. Num 5000" "\<lambda>v. 0" 18778]
  obtain s0 s1 where t1: "trialState ?a 18778 (- 1) = Inr s0"
    and i1: "integrateState_dE ?x ?a s0 = Inr (s1, ?tp, Num 5000)" by auto
  have ne: "(18778::real) \<noteq> 0" by simp
  have h: "\<not> \<bar>5000\<bar> < Etol ?a \<and> ((5000::real) \<noteq> 0 \<or> 0 \<le> max_dE_ratio ?a)"
    by (simp add: tol)
  from convergeE_energy_update [OF t1 i1 ne, of 0 ?cur] h
  have "convergeE_loop ?x ?a (- 1) (Suc 0) 18778 ?cur =
      convergeE_loop ?x ?a (- 1) 0 (18778 - 0.5 * 1877.8) (s1, ?tp)"
    using cl by (simp add: tol)
  then show "\<exists>st tp. convergeE_loop ?x ?a (- 1) (Suc 0) 18778 ?cur
      = convergeE_loop ?x ?a (- 1) 0 (18778 - 0.5 * 1877.8) (st, tp)" by blast
next
  let ?a = "example_atom 1 (- 1) 100"
  let ?cur = "(DiracState_default, \<lparr>tp_i = 0, tp_Qi = 0, tp_Qe = 0, tp_Pi = 0, tp_Pe = 0\<rparr>)"
  let ?tp = "\<lparr>tp_i = 0, tp_Qi = 1, tp_Qe = 1, tp_Pi = 1, tp_Pe = 1\<rparr>"
  have tol: "Etol ?a = 1 / 10 ^ 7" by (simp add: example_atom_def)
  let ?x = "example_ext (\<lambda>e. Num 0) (\<lambda>v. 0) 18778"
  from example_trial_integrated [of 18778 "- 1" 100 "\<lambda>e. Num 0" "\<lambda>v. 0" 18778]
  obtain s0 s1 where t1: "trialState ?a 18778 (- 1) = Inr s0"
    and i1: "integrateState_dE ?x ?a s0 = Inr (s1, ?tp, Num 0)" by auto
  have ne: "(18778::real) \<noteq> 0" by simp
  have h: "\<bar>0\<bar> < Etol ?a \<and> 0 \<le> tp_i ?tp" by (simp add: tol)
  from convergeE_energy_update [OF t1 i1 ne, of 0 ?cur] h
  show "\<exists>st tp. convergeE_loop ?x ?a (- 1) (Suc 0) 18778 ?cur = Inr (st, tp) \<and> st_E st = 18778"
    by auto
qed

section \<open>Properties of convergeNodes\<close>

lemma trial_left_Return:
  assumes "trial_left x a k t s = Inr (Return s')"
  shows "nodes (ns_state s') = t"
  using assms by (auto simp: trial_left_def Let_def split: if_splits sum.splits prod.splits)

lemma trial_right_Return:
  assumes "trial_right x a k t s = Inr (Return s')"
  shows "nodes (ns_state s') = t"
  using assms by (auto simp: trial_right_def Let_def split: if_splits sum.splits prod.splits)

lemma convergeNodes_body_Return:
  assumes "convergeNodes_body x a k t s = Inr (Return s')"
  shows "nodes (ns_state s') = t"
  using assms trial_left_Return trial_right_Return
  by (auto simp: convergeNodes_body_def split: sum.splits outcome.splits)

lemma convergeNodes_loop_target:
  assumes "convergeNodes_loop x a k t n s = Inr s'"
  shows "nodes (ns_state s') = t"
  using assms
proof (induction n arbitrary: s)
  case 0
  then show ?case by simp
next
  case (Suc n)
  then show ?case
    using convergeNodes_body_Return
    by (auto split: sum.splits outcome.splits)
qed

lemma convergeNodes_loop_exhausted:
  assumes "no_trial_succeeds x a k t n s"
  shows "convergeNodes_loop x a k t n s =
         Inl (runtime_error
           ''convergeNodes failed to find a suitable state - maximum iterations hit'')"
  using assms
proof (induction n arbitrary: s)
  case 0
  then show ?case by simp
next
  case (Suc n)
  then show ?case by (auto split: sum.splits outcome.splits)
qed

lemma narrow_bracket_inverted:
  assumes "t < ns_nl s" and "ns_nr s < t"
  shows "narrow_bracket t s =
         Inl (runtime_error ''convergeNodes failed - higher number of nodes for lower energy'')"
  using assms by (simp add: narrow_bracket_def Let_def)

text \<open>
  Claim C6. In an iteration of \<^verbatim>\<open>convergeNodes\<close> in which neither trial meets the
  target, the trial at the lower energy has more nodes than the target and the trial at
  the higher energy has fewer, the function throws the \<^verbatim>\<open>runtime_error\<close> of the
  nodal theorem. When the whole budget goes by without a trial meeting the target, it
  throws the \<^verbatim>\<open>runtime_error\<close> of the iteration limit. A normal return only
  happens with a state that has the target number of nodes.
\<close>

theorem convergeNodes_failures:
  "(trial_left x a k t s = Inr (Continue s1) \<and> trial_right x a k t s1 = Inr (Continue s2)
      \<and> t < ns_nl s2 \<and> ns_nr s2 < t
      \<longrightarrow> convergeNodes_loop x a k t (Suc n) s =
            Inl (runtime_error
              ''convergeNodes failed - higher number of nodes for lower energy''))
   \<and> (no_trial_succeeds x a k t n s
      \<longrightarrow> convergeNodes_loop x a k t n s =
            Inl (runtime_error
              ''convergeNodes failed to find a suitable state - maximum iterations hit''))
   \<and> (convergeNodes x a st tp t minE maxE nl0 nr0 = Inr (st', tp', lo, hi)
      \<longrightarrow> nodes st' = t)"
proof (intro conjI impI)
  assume h: "trial_left x a k t s = Inr (Continue s1) \<and> trial_right x a k t s1 = Inr (Continue s2)
      \<and> t < ns_nl s2 \<and> ns_nr s2 < t"
  then have "convergeNodes_body x a k t s =
      Inl (runtime_error ''convergeNodes failed - higher number of nodes for lower energy'')"
    using narrow_bracket_inverted [of t s2] by (simp add: convergeNodes_body_def)
  then show "convergeNodes_loop x a k t (Suc n) s =
      Inl (runtime_error ''convergeNodes failed - higher number of nodes for lower energy'')"
    by simp
next
  assume "no_trial_succeeds x a k t n s"
  then show "convergeNodes_loop x a k t n s =
      Inl (runtime_error
        ''convergeNodes failed to find a suitable state - maximum iterations hit'')"
    by (rule convergeNodes_loop_exhausted)
next
  assume "convergeNodes x a st tp t minE maxE nl0 nr0 = Inr (st', tp', lo, hi)"
  then obtain s' where "convergeNodes_loop x a (st_k st) t (nat (maxit a))
      (convergeNodes_init st tp minE maxE nl0 nr0) = Inr s'" and "st' = ns_state s'"
    by (auto simp: convergeNodes_def split: sum.splits)
  with convergeNodes_loop_target show "nodes st' = t" by blast
qed

lemma example_nodeTrial:
  assumes En: "18000 \<le> En" "En \<le> 18778.5"
  shows "\<exists>st. nodeTrial (example_ext corr cnt guess) (example_atom 1 R mx) (- 1) En =
             Inr (st, \<lparr>tp_i = 0, tp_Qi = 1, tp_Qe = 1, tp_Pi = 1, tp_Pe = 1\<rparr>)
           \<and> nodes st = cnt En \<and> st_E st = En"
proof -
  let ?a = "example_atom 1 R mx" and ?x = "example_ext corr cnt guess"
  from example_trialState [OF En, of R mx]
  obtain st0 where t: "trialState ?a En (- 1) = Inr st0" and e: "st_E st0 = En"
    and g: "on_log_grid ?a st0" by blast
  from on_log_grid_first [OF g] obtain r0 rs where gr: "grid st0 = r0 # rs" by blast
  show ?thesis
    using t e gr example_integrateState [OF gr, of corr cnt guess ?a]
    by (simp add: nodeTrial_def example_continuify findNodes_def example_ext_def)
qed

lemma example_trial_left:
  assumes "18000 \<le> ns_El s" "ns_El s \<le> 18778.5" "ns_El s \<noteq> ns_oldEl s"
  shows "\<exists>st. trial_left (example_ext corr cnt guess) (example_atom 1 R mx) (- 1) t s =
           Inr ((if cnt (ns_El s) = t then Return else Continue)
                  (s\<lparr>ns_state := st,
                     ns_tp := \<lparr>tp_i = 0, tp_Qi = 1, tp_Qe = 1, tp_Pi = 1, tp_Pe = 1\<rparr>,
                     ns_nl := cnt (ns_El s)\<rparr>))"
  using example_nodeTrial [OF assms(1,2), of corr cnt guess R mx] assms(3)
  by (auto simp: trial_left_def Let_def)

lemma example_trial_right:
  assumes "18000 \<le> ns_Er s" "ns_Er s \<le> 18778.5" "ns_Er s \<noteq> ns_oldEr s"
  shows "\<exists>st. trial_right (example_ext corr cnt guess) (example_atom 1 R mx) (- 1) t s =
           Inr ((if cnt (ns_Er s) = t then Return else Continue)
                  (s\<lparr>ns_state := st,
                     ns_tp := \<lparr>tp_i = 0, tp_Qi = 1, tp_Qe = 1, tp_Pi = 1, tp_Pe = 1\<rparr>,
                     ns_nr := cnt (ns_Er s)\<rparr>))"
  using example_nodeTrial [OF assms(1,2), of corr cnt guess R mx] assms(3)
  by (auto simp: trial_right_def Let_def)

theorem convergeNodes_failures_witness:
  "convergeNodes (example_ext (\<lambda>e. Num 0) (\<lambda>v. if v = 18777 then 2 else 0) 18778)
       (example_atom 1 (- 1) 100) (DiracState_default\<lparr>st_k := - 1\<rparr>)
       \<lparr>tp_i = 0, tp_Qi = 0, tp_Qe = 0, tp_Pi = 0, tp_Pe = 0\<rparr> 1 18776 18779 0 0
     = Inl (runtime_error ''convergeNodes failed - higher number of nodes for lower energy'')
   \<and> convergeNodes (example_ext (\<lambda>e. Num 0) (\<lambda>v. 5) 18778)
       (example_atom 1 (- 1) 1) (DiracState_default\<lparr>st_k := - 1\<rparr>)
       \<lparr>tp_i = 0, tp_Qi = 0, tp_Qe = 0, tp_Pi = 0, tp_Pe = 0\<rparr> 1 18776 18779 0 0
     = Inl (runtime_error
         ''convergeNodes failed to find a suitable state - maximum iterations hit'')
   \<and> (\<exists>st' tp' lo hi.
        convergeNodes (example_ext (\<lambda>e. Num 0) (\<lambda>v. 1) 18778)
          (example_atom 1 (- 1) 100) (DiracState_default\<lparr>st_k := - 1\<rparr>)
          \<lparr>tp_i = 0, tp_Qi = 0, tp_Qe = 0, tp_Pi = 0, tp_Pe = 0\<rparr> 1 18776 18779 0 0
        = Inr (st', tp', lo, hi) \<and> nodes st' = 1)"
proof (intro conjI)
  let ?st = "DiracState_default\<lparr>st_k := - 1\<rparr>"
  let ?tp0 = "\<lparr>tp_i = 0, tp_Qi = 0, tp_Qe = 0, tp_Pi = 0, tp_Pe = 0\<rparr>"
  let ?s = "convergeNodes_init ?st ?tp0 18776 18779 0 0"
  have El: "ns_El ?s = 18777" "ns_Er ?s = 18778" "ns_oldEl ?s = 18780" "ns_oldEr ?s = 18780"
    by (simp_all add: convergeNodes_init_def)
  have k: "st_k ?st = - 1" by simp
  {
    let ?cnt = "\<lambda>v::real. if v = 18777 then 2 else (0::int)"
    let ?x = "example_ext (\<lambda>e. Num 0) ?cnt 18778" and ?a = "example_atom 1 (- 1) 100"
    from example_trial_left [of ?s "\<lambda>e. Num 0" ?cnt 18778 "- 1" 100 1]
    obtain s1 where l: "trial_left ?x ?a (- 1) 1 ?s = Inr (Continue s1)"
      and s1: "ns_Er s1 = 18778" "ns_oldEr s1 = 18780" "ns_nl s1 = 2"
      by (auto simp: El)
    from example_trial_right [of s1 "\<lambda>e. Num 0" ?cnt 18778 "- 1" 100 1]
    obtain s2 where r: "trial_right ?x ?a (- 1) 1 s1 = Inr (Continue s2)"
      and s2: "ns_nl s2 = 2" "ns_nr s2 = 0"
      by (auto simp: s1)
    obtain m where m: "nat (maxit ?a) = Suc m"
      by (cases "nat 100") (simp_all add: example_atom_def)
    from convergeNodes_failures [of ?x ?a "- 1" 1 ?s s1 s2 m] l r s2
    have "convergeNodes_loop ?x ?a (- 1) 1 (Suc m) ?s =
        Inl (runtime_error ''convergeNodes failed - higher number of nodes for lower energy'')"
      by simp
    then show "convergeNodes ?x ?a ?st ?tp0 1 18776 18779 0 0 =
        Inl (runtime_error ''convergeNodes failed - higher number of nodes for lower energy'')"
      unfolding convergeNodes_def k m by simp
  }
  {
    let ?cnt = "\<lambda>v::real. (5::int)"
    let ?x = "example_ext (\<lambda>e. Num 0) ?cnt 18778" and ?a = "example_atom 1 (- 1) 1"
    from example_trial_left [of ?s "\<lambda>e. Num 0" ?cnt 18778 "- 1" 1 1]
    obtain s1 where l: "trial_left ?x ?a (- 1) 1 ?s = Inr (Continue s1)"
      and s1: "ns_Er s1 = 18778" "ns_oldEr s1 = 18780" "ns_nl s1 = 5"
      by (auto simp: El)
    from example_trial_right [of s1 "\<lambda>e. Num 0" ?cnt 18778 "- 1" 1 1]
    obtain s2 where r: "trial_right ?x ?a (- 1) 1 s1 = Inr (Continue s2)"
      and s2: "ns_nl s2 = 5" "ns_nr s2 = 5"
      by (auto simp: s1)
    from s2 obtain s3 where nb: "narrow_bracket 1 s2 = Inr s3"
      by (simp add: narrow_bracket_def Let_def)
    have "convergeNodes_body ?x ?a (- 1) 1 ?s = Inr (Continue s3)"
      using l r nb by (simp add: convergeNodes_body_def)
    then have nts: "no_trial_succeeds ?x ?a (- 1) 1 (Suc 0) ?s" by simp
    have mx: "nat (maxit ?a) = Suc 0" by (simp add: example_atom_def)
    from convergeNodes_failures [of ?x ?a "- 1" 1 ?s _ _ "Suc 0"] nts
    have "convergeNodes_loop ?x ?a (- 1) 1 (Suc 0) ?s =
        Inl (runtime_error
          ''convergeNodes failed to find a suitable state - maximum iterations hit'')"
      by blast
    then show "convergeNodes ?x ?a ?st ?tp0 1 18776 18779 0 0 =
        Inl (runtime_error
          ''convergeNodes failed to find a suitable state - maximum iterations hit'')"
      unfolding convergeNodes_def k mx by simp
  }
  {
    let ?cnt = "\<lambda>v::real. (1::int)"
    let ?x = "example_ext (\<lambda>e. Num 0) ?cnt 18778" and ?a = "example_atom 1 (- 1) 100"
    from example_trial_left [of ?s "\<lambda>e. Num 0" ?cnt 18778 "- 1" 100 1]
    obtain s1 where l: "trial_left ?x ?a (- 1) 1 ?s = Inr (Return s1)"
      by (auto simp: El)
    obtain m where m: "nat (maxit ?a) = Suc m"
      by (cases "nat 100") (simp_all add: example_atom_def)
    have "convergeNodes_loop ?x ?a (- 1) 1 (Suc m) ?s = Inr s1"
      using l by (simp add: convergeNodes_body_def)
    then have cn: "convergeNodes ?x ?a ?st ?tp0 1 18776 18779 0 0 =
        Inr (ns_state s1, ns_tp s1, ns_minE s1, ns_maxE s1)"
      unfolding convergeNodes_def k m by simp
    from convergeNodes_failures [of ?x ?a "- 1" 1 ?s _ _ 0 ?st ?tp0 18776 18779 0 0
        "ns_state s1" "ns_tp s1" "ns_minE s1" "ns_maxE s1"] cn
    have "nodes (ns_state s1) = 1" by blast
    with cn show "\<exists>st' tp' lo hi. convergeNodes ?x ?a ?st ?tp0 1 18776 18779 0 0 =
        Inr (st', tp', lo, hi) \<and> nodes st' = 1" by blast
  }
qed

end
